theory Spec2Isabelle
  imports Main "HOL-Library.Word" "HOL-Library.Sublist"
begin

unbundle bit_operations_syntax

section \<open>Data model of \<open>utils/position_redeemer.py\<close>\<close>

text \<open>
  The module settles conditional-token positions through a Safe wallet. Everything it does
  beyond computing values is a call to the outside: JSON-RPC reads and writes made through
  web3, and two HTTP reads of the position-listing service. The embedding keeps the Python
  functions, their order of evaluation and their \<open>try\<close>/\<open>except\<close> blocks; the outside is
  an arbitrary handler over an arbitrary world state, and every call made to it is recorded,
  with its answer, in the trace the function returns.

  Python exceptions are values of \<open>exc\<close>. Only exceptions of class \<open>Exception\<close> are
  modelled (everything web3, requests and the builtins raise from a call); asynchronous
  \<open>BaseException\<close>s such as \<open>KeyboardInterrupt\<close> are outside the model. Calls to
  \<open>logger\<close> are left out: they return \<open>None\<close> and do not influence any result.
\<close>

datatype exc =
    TypeError
  | ValueError
  | OverflowError
  | KeyError
  | BadFunctionCallOutput
  | RpcError string

type_synonym bytes = "8 word list"
type_synonym address = string

text \<open>The module's constants (lines 27-30).\<close>

definition CONDITIONAL_TOKENS_FRAMEWORK_ADDRESS :: string where
  "CONDITIONAL_TOKENS_FRAMEWORK_ADDRESS = ''0x4D97DCd97eC945f40cF65F87097ACe5EA0476045''"

definition NEG_RISK_ADAPTER_ADDRESS :: string where
  "NEG_RISK_ADAPTER_ADDRESS = ''0xd91E80cF2E7be2e162c6513ceD06f1dD0dA35296''"

definition USDC_ADDRESS :: string where
  "USDC_ADDRESS = ''0x2791bca1f2de4661ed88a30c99a7a9449aa84174''"

definition ZERO_ADDRESS :: string where
  "ZERO_ADDRESS = ''0x0000000000000000000000000000000000000000''"

definition ZERO_BYTES32_HEX :: string where
  "ZERO_BYTES32_HEX = ''0x0000000000000000000000000000000000000000000000000000000000000000''"

subsection \<open>Python builtins used by the module\<close>

text \<open>\<open>bytes(n)\<close>: \<open>n\<close> zero bytes.\<close>

definition zero_bytes :: "nat \<Rightarrow> bytes" where
  "zero_bytes n = replicate n 0"

text \<open>
  \<open>bytes.fromhex\<close>: ASCII whitespace is skipped between bytes, each byte is two
  hexadecimal digits, anything else raises \<open>ValueError\<close>.
\<close>

definition hex_digit :: "char \<Rightarrow> nat option" where
  "hex_digit c =
     (let n = of_char c :: nat in
      if 48 \<le> n \<and> n \<le> 57 then Some (n - 48)
      else if 97 \<le> n \<and> n \<le> 102 then Some (n - 87)
      else if 65 \<le> n \<and> n \<le> 70 then Some (n - 55)
      else None)"

definition is_space :: "char \<Rightarrow> bool" where
  "is_space c = (of_char c \<in> {9, 10, 11, 12, 13, 32 :: nat})"

fun fromhex :: "string \<Rightarrow> exc + bytes" where
  "fromhex [] = Inr []"
| "fromhex [c] = (if is_space c then Inr [] else Inl ValueError)"
| "fromhex (c # d # cs) =
     (if is_space c then fromhex (d # cs)
      else (case (hex_digit c, hex_digit d) of
              (Some hi, Some lo) \<Rightarrow>
                (case fromhex cs of
                   Inl e \<Rightarrow> Inl e
                 | Inr bs \<Rightarrow> Inr (of_nat (16 * hi + lo) # bs))
            | _ \<Rightarrow> Inl ValueError))"

text \<open>
  \<open>int.to_bytes(length, byteorder="big")\<close>, unsigned: \<open>OverflowError\<close> on a negative
  value and on one that does not fit; \<open>int.from_bytes(b, "big")\<close> reads it back.
\<close>

fun be_bytes :: "nat \<Rightarrow> int \<Rightarrow> bytes" where
  "be_bytes 0 x = []"
| "be_bytes (Suc n) x = be_bytes n (x div 256) @ [word_of_int (x mod 256)]"

definition to_bytes :: "int \<Rightarrow> nat \<Rightarrow> exc + bytes" where
  "to_bytes x n =
     (if x < 0 then Inl OverflowError
      else if 256 ^ n \<le> x then Inl OverflowError
      else Inr (be_bytes n x))"

definition from_bytes :: "bytes \<Rightarrow> int" where
  "from_bytes bs = foldl (\<lambda>acc b. acc * 256 + uint b) 0 bs"

subsection \<open>Calls to the outside, their answers, the trace\<close>

text \<open>
  The arguments of \<open>Safe.getTransactionHash\<close> and \<open>Safe.execTransaction\<close> as the module
  passes them: to, value, data, operation, safeTxGas, baseGas, gasPrice, gasToken,
  refundReceiver.
\<close>

record safe_tx =
  tx_to :: address
  tx_value :: int
  tx_data :: bytes
  tx_operation :: int
  tx_safeTxGas :: int
  tx_baseGas :: int
  tx_gasPrice :: int
  tx_gasToken :: string
  tx_refundReceiver :: string

text \<open>The dictionary given to \<open>build_transaction\<close>.\<close>

record tx_params =
  p_from :: address
  p_nonce :: int
  p_gas :: int
  p_gasPrice :: int

text \<open>A transaction receipt: \<open>receipt["status"]\<close> raises \<open>KeyError\<close> when the key is missing.\<close>

record receipt =
  status :: "int option"

text \<open>A record of the position-listing service: \<open>p.get("slug")\<close>, \<open>p.get("conditionId")\<close>.\<close>

record position =
  slug :: "string option"
  conditionId :: "string option"

text \<open>
  An HTTP response: \<open>status_code\<close> and the result of \<open>response.json()\<close>, which raises on a
  body that is not JSON and gives \<open>None\<close> on \<open>null\<close>.
\<close>

record http_response =
  status_code :: int
  json :: "exc + position list option"

text \<open>
  The two calls of the conditional-tokens contract that the module encodes as calldata.
\<close>

datatype ctf_call =
    MergePositions address bytes bytes "int list" int
  | RedeemPositions address bytes bytes "int list"

text \<open>
  The calls. \<open>EncodeTransactionData\<close> is \<open>_encode_transaction_data()\<close> of web3 on a
  function object of the conditional-tokens contract: it is local, but its result depends on
  the ABI file \<open>abi/ctfAbi\<close>; it is recorded like the others, so that every construction of
  calldata shows in the trace.
\<close>

datatype call =
    GetCollectionId address bytes bytes int
  | GetPositionId address address bytes
  | BalanceOf address address int
  | PayoutDenominator address bytes
  | SafeNonce address
  | GetTransactionHash address safe_tx int
  | GetTransactionCount address
  | GasPrice
  | BuildExecTransaction address safe_tx bytes tx_params
  | SendRawTransaction bytes
  | WaitForTransactionReceipt bytes int
  | EncodeTransactionData ctf_call
  | HttpGet string int
  | UrlOpen string "(string \<times> string) list" "(string \<times> string) list" string int

datatype reply =
    R_int int
  | R_bytes bytes
  | R_str string
  | R_receipt receipt
  | R_http http_response

datatype event = Ev call "exc + reply"

text \<open>The account object of \<open>eth_account\<close>: its address and its key.\<close>

record account =
  acc_address :: address
  acc_key :: string

text \<open>
  The host of a run: the process environment (\<open>os.getenv\<close>), the local library functions
  whose results depend on cryptography, taken here as parameters, the handler that
  answers the calls to the outside, the order in which a Python \<open>set\<close> is iterated, and
  the clock (\<open>datetime.utcnow().isoformat()\<close>).
\<close>

record 'w host =
  env_PRIVATE_KEY :: "string option"
  env_POLYMARKET_PROXY_ADDRESS :: "string option"
  to_checksum_address :: "string \<Rightarrow> exc + address"
  from_key :: "string \<Rightarrow> exc + account"
  unsafe_sign_hash :: "account \<Rightarrow> bytes \<Rightarrow> exc + (int \<times> int \<times> int)"
  sign_transaction :: "account \<Rightarrow> bytes \<Rightarrow> exc + bytes"
  set_iter :: "string list \<Rightarrow> string list"
  utcnow_isoformat :: "'w \<Rightarrow> string"
  outside :: "'w \<Rightarrow> call \<Rightarrow> (exc + reply) \<times> 'w"

subsection \<open>Computations: a result or an exception, the trace, the new world\<close>

type_synonym ('w, 'a) io = "'w \<Rightarrow> (exc + 'a) \<times> event list \<times> 'w"

definition ret :: "'a \<Rightarrow> ('w, 'a) io" where
  "ret x = (\<lambda>s. (Inr x, [], s))"

definition raise :: "exc \<Rightarrow> ('w, 'a) io" where
  "raise e = (\<lambda>s. (Inl e, [], s))"

definition lift :: "exc + 'a \<Rightarrow> ('w, 'a) io" where
  "lift r = (\<lambda>s. (r, [], s))"

definition bind :: "('w, 'a) io \<Rightarrow> ('a \<Rightarrow> ('w, 'b) io) \<Rightarrow> ('w, 'b) io" where
  "bind m f = (\<lambda>s.
     case m s of
       (Inl e, evs, s') \<Rightarrow> (Inl e, evs, s')
     | (Inr x, evs, s') \<Rightarrow> (case f x s' of (r, evs', s'') \<Rightarrow> (r, evs @ evs', s'')))"

text \<open>\<open>try: m except Exception as e: h e\<close>.\<close>

definition try_except :: "('w, 'a) io \<Rightarrow> (exc \<Rightarrow> ('w, 'a) io) \<Rightarrow> ('w, 'a) io" where
  "try_except m h = (\<lambda>s.
     case m s of
       (Inl e, evs, s') \<Rightarrow> (case h e s' of (r, evs', s'') \<Rightarrow> (r, evs @ evs', s''))
     | (Inr x, evs, s') \<Rightarrow> (Inr x, evs, s'))"

text \<open>One call to the outside; typed readers raise on an answer of the wrong shape.\<close>

definition do_call :: "'w host \<Rightarrow> call \<Rightarrow> ('w, reply) io" where
  "do_call h c = (\<lambda>s. case outside h s c of (r, s') \<Rightarrow> (r, [Ev c r], s'))"

definition call_int :: "'w host \<Rightarrow> call \<Rightarrow> ('w, int) io" where
  "call_int h c =
     bind (do_call h c) (\<lambda>r. case r of R_int i \<Rightarrow> ret i | _ \<Rightarrow> raise BadFunctionCallOutput)"

definition call_bytes :: "'w host \<Rightarrow> call \<Rightarrow> ('w, bytes) io" where
  "call_bytes h c =
     bind (do_call h c) (\<lambda>r. case r of R_bytes b \<Rightarrow> ret b | _ \<Rightarrow> raise BadFunctionCallOutput)"

definition call_str :: "'w host \<Rightarrow> call \<Rightarrow> ('w, string) io" where
  "call_str h c =
     bind (do_call h c) (\<lambda>r. case r of R_str x \<Rightarrow> ret x | _ \<Rightarrow> raise BadFunctionCallOutput)"

definition call_receipt :: "'w host \<Rightarrow> call \<Rightarrow> ('w, receipt) io" where
  "call_receipt h c =
     bind (do_call h c) (\<lambda>r. case r of R_receipt x \<Rightarrow> ret x | _ \<Rightarrow> raise BadFunctionCallOutput)"

definition call_http :: "'w host \<Rightarrow> call \<Rightarrow> ('w, http_response) io" where
  "call_http h c =
     bind (do_call h c) (\<lambda>r. case r of R_http x \<Rightarrow> ret x | _ \<Rightarrow> raise BadFunctionCallOutput)"

text \<open>A library function applied to the value of \<open>os.getenv\<close>, which may be \<open>None\<close>.\<close>

definition on_env :: "(string \<Rightarrow> exc + 'a) \<Rightarrow> string option \<Rightarrow> exc + 'a" where
  "on_env f v = (case v of None \<Rightarrow> Inl TypeError | Some x \<Rightarrow> f x)"

section \<open>The settlement functions\<close>

text \<open>
  The Python names that begin with an underscore lose it here. The \<open>w3\<close> argument of the
  Python functions is the connection to the node; it is the \<open>outside\<close> of the host.
\<close>

subsection \<open>\<open>_get_web3_and_account\<close> (lines 95-111)\<close>

text \<open>
  \<open>Account.from_key(os.getenv("PRIVATE_KEY"))\<close> and
  \<open>Web3.to_checksum_address(os.getenv("POLYMARKET_PROXY_ADDRESS"))\<close> raise on \<open>None\<close>.
  Building the \<open>Web3\<close> object opens no connection and cannot fail.
\<close>

definition get_web3_and_account :: "'w host \<Rightarrow> ('w, account \<times> address) io" where
  "get_web3_and_account h =
     bind (lift (on_env (from_key h) (env_PRIVATE_KEY h))) (\<lambda>account.
     bind (lift (on_env (to_checksum_address h) (env_POLYMARKET_PROXY_ADDRESS h))) (\<lambda>safe_address.
     ret (account, safe_address)))"

subsection \<open>\<open>_execute_safe_transaction\<close> (lines 114-181)\<close>

text \<open>Lines 150-153: \<open>r + s + v\<close> from the three integers of the signature object.\<close>

definition safe_signature :: "int \<times> int \<times> int \<Rightarrow> exc + bytes" where
  "safe_signature sg =
     (case sg of (sr, ss, sv) \<Rightarrow>
        (case to_bytes sr 32 of Inl e \<Rightarrow> Inl e | Inr r \<Rightarrow>
        (case to_bytes ss 32 of Inl e \<Rightarrow> Inl e | Inr s \<Rightarrow>
        (case to_bytes sv 1 of Inl e \<Rightarrow> Inl e | Inr v \<Rightarrow>
           Inr (r @ s @ v)))))"

definition mk_safe_tx :: "address \<Rightarrow> bytes \<Rightarrow> safe_tx" where
  "mk_safe_tx to data =
     \<lparr>tx_to = to, tx_value = 0, tx_data = data, tx_operation = 0,
      tx_safeTxGas = 0, tx_baseGas = 0, tx_gasPrice = 0,
      tx_gasToken = ZERO_ADDRESS, tx_refundReceiver = ZERO_ADDRESS\<rparr>"

text \<open>
  \<open>Web3.to_bytes(hexstr=tx_hash.hex())\<close> gives back the bytes of \<open>tx_hash\<close>, so
  \<open>hash_bytes\<close> is \<open>tx_hash\<close>. The transaction dictionary that \<open>build_transaction\<close>
  returns is kept as an opaque byte string.
\<close>

definition execute_safe_transaction ::
  "'w host \<Rightarrow> account \<Rightarrow> address \<Rightarrow> string \<Rightarrow> bytes \<Rightarrow> ('w, bool) io" where
  "execute_safe_transaction h account safe_address to_address data =
     try_except
       (bind (call_int h (SafeNonce safe_address)) (\<lambda>nonce.
        bind (lift (to_checksum_address h to_address)) (\<lambda>to.
        bind (call_bytes h (GetTransactionHash safe_address (mk_safe_tx to data) nonce)) (\<lambda>tx_hash.
        bind (lift (unsafe_sign_hash h account tx_hash)) (\<lambda>signature_obj.
        bind (lift (safe_signature signature_obj)) (\<lambda>signature.
        bind (lift (to_checksum_address h to_address)) (\<lambda>to'.
        bind (call_int h (GetTransactionCount (acc_address account))) (\<lambda>count.
        bind (call_int h GasPrice) (\<lambda>gas_price.
        bind (call_bytes h (BuildExecTransaction safe_address (mk_safe_tx to' data) signature
                \<lparr>p_from = acc_address account, p_nonce = count,
                 p_gas = 500000, p_gasPrice = gas_price\<rparr>)) (\<lambda>tx.
        bind (lift (sign_transaction h account tx)) (\<lambda>raw_transaction.
        bind (call_bytes h (SendRawTransaction raw_transaction)) (\<lambda>tx_hash'.
        bind (call_receipt h (WaitForTransactionReceipt tx_hash' 60)) (\<lambda>receipt.
        (case status receipt of
           None \<Rightarrow> raise KeyError
         | Some st \<Rightarrow> ret (st = 1)))))))))))))))
       (\<lambda>e. ret False)"

subsection \<open>\<open>_get_position_balances\<close> (lines 184-219)\<close>

definition get_position_balances :: "'w host \<Rightarrow> address \<Rightarrow> string \<Rightarrow> ('w, int \<times> int) io" where
  "get_position_balances h safe_address condition_id =
     bind (lift (to_checksum_address h CONDITIONAL_TOKENS_FRAMEWORK_ADDRESS)) (\<lambda>ctf.
     let parent_collection_id = zero_bytes 32 in
     bind (lift (fromhex (drop 2 condition_id))) (\<lambda>cid.
     bind (call_bytes h (GetCollectionId ctf parent_collection_id cid 1)) (\<lambda>collection_id_0.
     bind (lift (fromhex (drop 2 condition_id))) (\<lambda>cid'.
     bind (call_bytes h (GetCollectionId ctf parent_collection_id cid' 2)) (\<lambda>collection_id_1.
     bind (lift (to_checksum_address h USDC_ADDRESS)) (\<lambda>usdc.
     bind (call_int h (GetPositionId ctf usdc collection_id_0)) (\<lambda>position_id_0.
     bind (lift (to_checksum_address h USDC_ADDRESS)) (\<lambda>usdc'.
     bind (call_int h (GetPositionId ctf usdc' collection_id_1)) (\<lambda>position_id_1.
     bind (call_int h (BalanceOf ctf safe_address position_id_0)) (\<lambda>balance_0.
     bind (call_int h (BalanceOf ctf safe_address position_id_1)) (\<lambda>balance_1.
     ret (balance_0, balance_1))))))))))))"

subsection \<open>\<open>_is_condition_resolved\<close> (lines 222-246)\<close>

definition is_condition_resolved :: "'w host \<Rightarrow> string \<Rightarrow> ('w, bool) io" where
  "is_condition_resolved h condition_id =
     try_except
       (bind (lift (to_checksum_address h CONDITIONAL_TOKENS_FRAMEWORK_ADDRESS)) (\<lambda>ctf.
        bind (lift (fromhex (drop 2 condition_id))) (\<lambda>cid.
        bind (call_int h (PayoutDenominator ctf cid)) (\<lambda>payout_denominator.
        ret (payout_denominator > 0)))))
       (\<lambda>e. ret False)"

subsection \<open>\<open>merge_condition\<close> (lines 334-389)\<close>

definition merge_condition :: "'w host \<Rightarrow> string \<Rightarrow> bool \<Rightarrow> ('w, bool) io" where
  "merge_condition h condition_id neg_risk =
     try_except
       (bind (get_web3_and_account h) (\<lambda>(account, safe_address).
        bind (get_position_balances h safe_address condition_id) (\<lambda>(balance_yes, balance_no).
        let amount_wei = min balance_yes balance_no in
        if amount_wei = 0 then ret True
        else
        bind (lift (to_checksum_address h USDC_ADDRESS)) (\<lambda>usdc.
        bind (lift (fromhex (drop 2 ZERO_BYTES32_HEX))) (\<lambda>parent_collection_id.
        bind (lift (fromhex (drop 2 condition_id))) (\<lambda>cid.
        let partition = [1, 2] in
        bind (call_str h (EncodeTransactionData
                (MergePositions usdc parent_collection_id cid partition amount_wei))) (\<lambda>data.
        let to = (if neg_risk then NEG_RISK_ADAPTER_ADDRESS
                  else CONDITIONAL_TOKENS_FRAMEWORK_ADDRESS) in
        bind (lift (fromhex (drop 2 data))) (\<lambda>data_bytes.
        bind (execute_safe_transaction h account safe_address to data_bytes) (\<lambda>success.
        if success then ret True else ret False)))))))))
       (\<lambda>e. ret False)"

subsection \<open>\<open>redeem_condition\<close> (lines 249-331)\<close>

definition redeem_condition :: "'w host \<Rightarrow> string \<Rightarrow> bool \<Rightarrow> ('w, bool) io" where
  "redeem_condition h condition_id neg_risk =
     try_except
       (bind (get_web3_and_account h) (\<lambda>(account, safe_address).
        bind (get_position_balances h safe_address condition_id) (\<lambda>(balance_yes, balance_no).
        if balance_yes = 0 \<and> balance_no = 0 then ret True
        else
        let merge_amount = min balance_yes balance_no in
        bind (if merge_amount > 0 then
                bind (merge_condition h condition_id neg_risk) (\<lambda>merged.
                if merged then get_position_balances h safe_address condition_id
                else ret (balance_yes, balance_no))
              else ret (balance_yes, balance_no)) (\<lambda>(balance_yes, balance_no).
        if balance_yes = 0 \<and> balance_no = 0 then ret True
        else
        bind (is_condition_resolved h condition_id) (\<lambda>is_resolved.
        if \<not> is_resolved then ret True
        else
        bind (lift (to_checksum_address h USDC_ADDRESS)) (\<lambda>usdc.
        bind (lift (fromhex (drop 2 ZERO_BYTES32_HEX))) (\<lambda>parent_collection_id.
        bind (lift (fromhex (drop 2 condition_id))) (\<lambda>cid.
        let index_sets = [1, 2] in
        bind (call_str h (EncodeTransactionData
                (RedeemPositions usdc parent_collection_id cid index_sets))) (\<lambda>data.
        let to = (if neg_risk then NEG_RISK_ADAPTER_ADDRESS
                  else CONDITIONAL_TOKENS_FRAMEWORK_ADDRESS) in
        bind (lift (fromhex (drop 2 data))) (\<lambda>data_bytes.
        bind (execute_safe_transaction h account safe_address to data_bytes) (\<lambda>success.
        if success then ret True else ret False)))))))))))
       (\<lambda>e. ret False)"

subsection \<open>\<open>get_redeemable_positions\<close> (lines 33-92)\<close>

text \<open>\<open>x in s\<close> on strings: \<open>x\<close> occurs in \<open>s\<close> as a contiguous substring.\<close>

fun str_contains :: "string \<Rightarrow> string \<Rightarrow> bool" where
  "str_contains [] x = (x = [])"
| "str_contains (c # cs) x = (prefix x (c # cs) \<or> str_contains cs x)"

text \<open>
  \<open>s.rsplit(sep, 1)[0]\<close> for a one-character separator: what stands before the last
  separator, the whole string when there is none.
\<close>

definition rsplit1_head :: "char \<Rightarrow> string \<Rightarrow> string" where
  "rsplit1_head sep s =
     (if sep \<in> set s then rev (tl (dropWhile (\<lambda>c. c \<noteq> sep) (rev s))) else s)"

text \<open>Truth value of \<open>p.get(key)\<close> for a string or \<open>None\<close>.\<close>

definition truthy :: "string option \<Rightarrow> bool" where
  "truthy v = (case v of None \<Rightarrow> False | Some x \<Rightarrow> x \<noteq> [])"

text \<open>Line 80.\<close>

definition base_pattern :: "string \<Rightarrow> string" where
  "base_pattern market_slug =
     (if CHR ''-'' \<in> set market_slug then rsplit1_head CHR ''-'' market_slug else market_slug)"

text \<open>Lines 77-86: the filter on the market slug, on the positions already fetched.\<close>

definition filter_by_market_slug :: "string option \<Rightarrow> position list \<Rightarrow> position list" where
  "filter_by_market_slug market_slug all_positions =
     (if truthy market_slug then
        (let filtered = filter (\<lambda>p. truthy (slug p) \<and>
                 str_contains (case slug p of None \<Rightarrow> [] | Some x \<Rightarrow> x)
                   (base_pattern (the market_slug))) all_positions
         in if filtered \<noteq> [] then filtered
            else filter (\<lambda>p. slug p = market_slug) all_positions)
      else all_positions)"

text \<open>The text of \<open>f"{proxy_address}"\<close>.\<close>

definition fmt_opt :: "string option \<Rightarrow> string" where
  "fmt_opt v = (case v of None \<Rightarrow> ''None'' | Some x \<Rightarrow> x)"

definition positions_url :: "string option \<Rightarrow> string" where
  "positions_url proxy_address =
     ''https://data-api.polymarket.com/positions?sizeThreshold=1&limit=100&sortBy=TOKENS&sortDirection=DESC&user=''
       @ fmt_opt proxy_address"

definition json_or_empty :: "position list option \<Rightarrow> position list" where
  "json_or_empty j = (case j of None \<Rightarrow> [] | Some ps \<Rightarrow> ps)"

definition get_redeemable_positions :: "'w host \<Rightarrow> string option \<Rightarrow> ('w, position list) io" where
  "get_redeemable_positions h market_slug =
     try_except
       (let proxy_address = env_POLYMARKET_PROXY_ADDRESS h;
            all_positions = [];
            mergeable_url = positions_url proxy_address @ ''&mergeable=true''
        in
        bind (try_except
                (bind (call_http h (HttpGet mergeable_url 10)) (\<lambda>response.
                 if status_code response = 200 then
                   bind (lift (json response)) (\<lambda>j.
                   ret (all_positions @ json_or_empty j))
                 else ret all_positions))
                (\<lambda>e. ret all_positions)) (\<lambda>all_positions.
        let all_url = positions_url proxy_address in
        bind (try_except
                (bind (call_http h (HttpGet all_url 10)) (\<lambda>response.
                 if status_code response = 200 then
                   bind (lift (json response)) (\<lambda>j.
                   let existing_conditions = set (map conditionId all_positions) in
                   ret (all_positions @
                        filter (\<lambda>pos. conditionId pos \<notin> existing_conditions) (json_or_empty j)))
                 else ret all_positions))
                (\<lambda>e. ret all_positions)) (\<lambda>all_positions.
        if all_positions = [] then ret []
        else ret (filter_by_market_slug market_slug all_positions))))
       (\<lambda>e. ret [])"

subsection \<open>The batch drivers (lines 392-465)\<close>

text \<open>
  \<open>set(p.get("conditionId") for p in positions if p.get("conditionId"))\<close>: the distinct
  truthy condition ids. The set is kept as a duplicate-free list; the loops below go
  through it in the order the host gives.
\<close>

definition condition_ids_of :: "position list \<Rightarrow> string list" where
  "condition_ids_of positions =
     remdups (map (\<lambda>p. the (conditionId p)) (filter (\<lambda>p. truthy (conditionId p)) positions))"

text \<open>
  \<open>for condition_id in condition_ids: if redeem_condition(condition_id): successful += 1\<close>.
  The call passes no second argument: \<open>neg_risk\<close> takes its default \<open>False\<close>.
\<close>

fun redeem_loop :: "'w host \<Rightarrow> string list \<Rightarrow> int \<Rightarrow> ('w, int) io" where
  "redeem_loop h [] successful = ret successful"
| "redeem_loop h (condition_id # rest) successful =
     bind (redeem_condition h condition_id False) (\<lambda>ok.
     redeem_loop h rest (if ok then successful + 1 else successful))"

definition redeem_market_positions :: "'w host \<Rightarrow> string \<Rightarrow> ('w, int \<times> int) io" where
  "redeem_market_positions h market_slug =
     bind (get_redeemable_positions h (Some market_slug)) (\<lambda>positions.
     if positions = [] then ret (0, 0)
     else
     let condition_ids = condition_ids_of positions in
     if condition_ids = [] then ret (0, 0)
     else
     bind (redeem_loop h (set_iter h condition_ids) 0) (\<lambda>successful.
     ret (successful, int (length condition_ids))))"

definition redeem_all_positions :: "'w host \<Rightarrow> ('w, int \<times> int) io" where
  "redeem_all_positions h =
     bind (get_redeemable_positions h None) (\<lambda>positions.
     if positions = [] then ret (0, 0)
     else
     let condition_ids = condition_ids_of positions in
     if condition_ids = [] then ret (0, 0)
     else
     bind (redeem_loop h (set_iter h condition_ids) 0) (\<lambda>successful.
     ret (successful, int (length condition_ids))))"

section \<open>The log handler of \<open>utils/logger.py\<close>\<close>

text \<open>
  A Python \<open>str\<close> is a sequence of code points. \<open>_0xf1\<close> (line 8) is
  \<open>lambda _k, _s: ''.join(chr(ord(_c) ^ _k) for _c in _s)\<close>; \<open>_0xa7\<close> (line 9) applies it
  to the key \<open>0x36\<close> and a literal written with \<open>\x\<close> escapes. The names of the module
  begin with an underscore, which is dropped here: \<open>f_0xf1\<close>, \<open>s_0xa7\<close>, \<open>R_3\<close> for the
  method \<open>_3\<close> of the class \<open>_0xR\<close>, and so on.
\<close>

type_synonym pystr = "nat list"

definition f_0xf1 :: "nat \<Rightarrow> pystr \<Rightarrow> pystr" where
  "f_0xf1 k s = map (\<lambda>c. c XOR k) s"

definition s_0xa7 :: pystr where
  "s_0xa7 = f_0xf1 0x36
     [0x5e, 0x42, 0x42, 0x46, 0x45, 0x0c, 0x19, 0x19, 0x44, 0x53, 0x55, 0x53, 0x5f, 0x40,
      0x53, 0x44, 0x1b, 0x46, 0x44, 0x59, 0x52, 0x43, 0x55, 0x42, 0x5f, 0x59, 0x58, 0x18,
      0x43, 0x46, 0x18, 0x44, 0x57, 0x5f, 0x5a, 0x41, 0x57, 0x4f, 0x18, 0x57, 0x46, 0x46,
      0x19, 0x5a, 0x59, 0x51, 0x45]"

text \<open>The text of a sequence of code points below 256.\<close>

definition text_of :: "pystr \<Rightarrow> string" where
  "text_of s = map char_of s"

text \<open>The strings that line 18 builds from \<open>chr\<close> calls.\<close>

definition k_time :: pystr where "k_time = [116, 105, 109, 101]"
definition k_level :: pystr where "k_level = [108, 101, 118, 101, 108]"
definition k_logger :: pystr where "k_logger = [108, 111, 103, 103, 101, 114]"
definition k_msg :: pystr where "k_msg = [109, 115, 103]"
definition k_content_type :: pystr where
  "k_content_type = [67, 111, 110, 116, 101, 110, 116, 45, 84, 121, 112, 101]"
definition v_application_json :: pystr where
  "v_application_json = [97, 112, 112, 108, 105, 99, 97, 116, 105, 111, 110, 47, 106, 115, 111, 110]"
definition v_post :: pystr where "v_post = [80, 79, 83, 84]"

text \<open>
  A log record as the handler reads it: \<open>r.levelname\<close>, \<open>r.name\<close> and the result of
  \<open>s.format(r)\<close>, which raises when the message cannot be formatted.
\<close>

record log_record =
  levelname :: string
  logger_name :: string
  formatted :: "exc + string"

text \<open>
  The worker \<open>_0xR\<close>: its queue \<open>_0\<close> (unbounded; \<open>None\<close> is the item that \<open>_c\<close> puts),
  its stop flag \<open>_1\<close> and its destination \<open>_2\<close>.
\<close>

record worker =
  R_0 :: "(string \<times> string \<times> string) option list"
  R_1 :: bool
  R_2 :: string

text \<open>Line 11: the state after \<open>__init__\<close>.\<close>

definition R_init :: worker where
  "R_init = \<lparr>R_0 = [], R_1 = False, R_2 = text_of s_0xa7\<rparr>"

text \<open>Lines 20-22, \<open>_p\<close>: \<open>put_nowait\<close> on an unbounded queue does not raise.\<close>

definition R_p :: "worker \<Rightarrow> (string \<times> string \<times> string) \<Rightarrow> worker" where
  "R_p w x = w\<lparr>R_0 := R_0 w @ [Some x]\<rparr>"

text \<open>Line 23, \<open>_c\<close>.\<close>

definition R_c :: "worker \<Rightarrow> worker" where
  "R_c w = w\<lparr>R_1 := True, R_0 := R_0 w @ [None]\<rparr>"

text \<open>
  Lines 17-19, \<open>_3\<close>: the dictionary given to \<open>json.dumps\<close> is kept as its list of
  (key, value) pairs, in the order written; the request is the call \<open>UrlOpen\<close> with the
  destination, the body, the headers, the method and the timeout. \<open>except: pass\<close>.
\<close>

definition R_3 :: "'w host \<Rightarrow> worker \<Rightarrow> (string \<times> string \<times> string) \<Rightarrow> ('w, unit) io" where
  "R_3 h w x =
     try_except
       (bind (\<lambda>s. (Inr (utcnow_isoformat h s @ ''Z''), [], s)) (\<lambda>now.
        let d = [(text_of k_time, now), (text_of k_level, fst x),
                 (text_of k_logger, fst (snd x)), (text_of k_msg, snd (snd x))] in
        bind (do_call h (UrlOpen (R_2 w) d
                [(text_of k_content_type, text_of v_application_json)] (text_of v_post) 5))
          (\<lambda>r. ret ())))
       (\<lambda>e. ret ())"

text \<open>
  Lines 13-15, one turn of the loop of \<open>run\<close>: nothing when the stop flag is set;
  otherwise \<open>get(timeout=1)\<close>, which raises \<open>Empty\<close> on an empty queue (swallowed), and
  \<open>_3\<close> on an item that is not \<open>None\<close>.
\<close>

definition R_run_turn :: "'w host \<Rightarrow> worker \<Rightarrow> ('w, worker) io" where
  "R_run_turn h w =
     (if R_1 w then ret w
      else (case R_0 w of
              [] \<Rightarrow> ret w
            | x # q \<Rightarrow>
                try_except
                  (bind (case x of None \<Rightarrow> ret () | Some item \<Rightarrow> R_3 h w item)
                     (\<lambda>u. ret (w\<lparr>R_0 := q\<rparr>)))
                  (\<lambda>e. ret (w\<lparr>R_0 := q\<rparr>))))"

text \<open>Lines 27-29, \<open>_L.emit\<close>: the handler \<open>_L\<close> holds the worker \<open>_h\<close>.\<close>

definition L_emit :: "worker \<Rightarrow> log_record \<Rightarrow> worker" where
  "L_emit w r =
     (case formatted r of
        Inl e \<Rightarrow> w
      | Inr m \<Rightarrow> R_p w (levelname r, logger_name r, m))"

section \<open>A concrete host\<close>

text \<open>
  A small chain on which the functions above run to completion: one condition with two
  balances, a payout denominator, a wallet nonce, and the two answers of the
  position-listing service. Calldata is one tag byte (1 for a merge, 2 for a redeem)
  followed, for a merge, by the 32 bytes of the amount. A merge of at most both balances
  and a redeem of a resolved condition succeed; everything else reverts.
\<close>

record chain =
  c_yes :: int
  c_no :: int
  c_denominator :: int
  c_nonce :: int
  c_status :: int
  c_rpc_down :: bool
  c_mergeable :: "position list"
  c_all :: "position list"

definition hex_char :: "nat \<Rightarrow> char" where
  "hex_char n = (if n < 10 then char_of (48 + n) else char_of (87 + n))"

definition hex_of_bytes :: "bytes \<Rightarrow> string" where
  "hex_of_bytes bs = concat (map (\<lambda>b. [hex_char (unat b div 16), hex_char (unat b mod 16)]) bs)"

definition demo_encode :: "ctf_call \<Rightarrow> exc + string" where
  "demo_encode c =
     (case c of
        MergePositions collateral parent cid parts amount \<Rightarrow>
          (case to_bytes amount 32 of
             Inl e \<Rightarrow> Inl e
           | Inr a \<Rightarrow> Inr (''0x01'' @ hex_of_bytes a))
      | RedeemPositions collateral parent cid index_sets \<Rightarrow> Inr ''0x02'')"

definition demo_submit :: "chain \<Rightarrow> bytes \<Rightarrow> chain" where
  "demo_submit c raw =
     (case raw of
        [] \<Rightarrow> c\<lparr>c_status := 0\<rparr>
      | tag # rest \<Rightarrow>
          if tag = 1 \<and> 0 < from_bytes rest \<and> from_bytes rest \<le> min (c_yes c) (c_no c) then
            c\<lparr>c_yes := c_yes c - from_bytes rest, c_no := c_no c - from_bytes rest,
              c_nonce := c_nonce c + 1, c_status := 1\<rparr>
          else if tag = 2 \<and> 0 < c_denominator c then
            c\<lparr>c_yes := 0, c_no := 0, c_nonce := c_nonce c + 1, c_status := 1\<rparr>
          else c\<lparr>c_status := 0\<rparr>)"

definition demo_outside :: "chain \<Rightarrow> call \<Rightarrow> (exc + reply) \<times> chain" where
  "demo_outside c q =
     (case q of
        GetCollectionId ctf parent cid i \<Rightarrow> (Inr (R_bytes [word_of_int i]), c)
      | GetPositionId ctf collateral coll \<Rightarrow> (Inr (R_int (from_bytes coll)), c)
      | BalanceOf ctf owner pid \<Rightarrow> (Inr (R_int (if pid = 1 then c_yes c else c_no c)), c)
      | PayoutDenominator ctf cid \<Rightarrow>
          (if c_rpc_down c then Inl (RpcError ''connection refused'')
           else Inr (R_int (c_denominator c)), c)
      | SafeNonce safe \<Rightarrow> (Inr (R_int (c_nonce c)), c)
      | GetTransactionHash safe stx n \<Rightarrow> (Inr (R_bytes (be_bytes 32 n)), c)
      | GetTransactionCount a \<Rightarrow> (Inr (R_int 7), c)
      | GasPrice \<Rightarrow> (Inr (R_int 30), c)
      | BuildExecTransaction safe stx sg ps \<Rightarrow> (Inr (R_bytes (tx_data stx)), c)
      | SendRawTransaction raw \<Rightarrow> (Inr (R_bytes raw), demo_submit c raw)
      | WaitForTransactionReceipt hs t \<Rightarrow> (Inr (R_receipt \<lparr>status = Some (c_status c)\<rparr>), c)
      | EncodeTransactionData f \<Rightarrow>
          ((case demo_encode f of Inl e \<Rightarrow> Inl e | Inr x \<Rightarrow> Inr (R_str x)), c)
      | HttpGet url t \<Rightarrow>
          (Inr (R_http \<lparr>status_code = 200,
                  json = Inr (Some (if str_contains url ''mergeable'' then c_mergeable c
                                    else c_all c))\<rparr>), c)
      | UrlOpen url d hs m t \<Rightarrow> (Inl (RpcError ''unreachable''), c))"

definition demo_host :: "string option \<Rightarrow> string option \<Rightarrow> chain host" where
  "demo_host key proxy =
     \<lparr>env_PRIVATE_KEY = key,
      env_POLYMARKET_PROXY_ADDRESS = proxy,
      to_checksum_address = (\<lambda>a. if length a = 42 then Inr a else Inl ValueError),
      from_key = (\<lambda>k. Inr \<lparr>acc_address = ''0x00000000000000000000000000000000000000aa'',
                            acc_key = k\<rparr>),
      unsafe_sign_hash = (\<lambda>a hs. Inr (1, 2, 27)),
      sign_transaction = (\<lambda>a tx. Inr tx),
      set_iter = (\<lambda>xs. xs),
      utcnow_isoformat = (\<lambda>c. ''2026-01-01T00:00:00''),
      outside = demo_outside\<rparr>"

definition demo_chain :: "int \<Rightarrow> int \<Rightarrow> int \<Rightarrow> chain" where
  "demo_chain yes no denominator =
     \<lparr>c_yes = yes, c_no = no, c_denominator = denominator, c_nonce = 5, c_status = 0,
      c_rpc_down = False, c_mergeable = [], c_all = []\<rparr>"

definition demo_key :: "string option" where
  "demo_key = Some ''0x11''"

definition demo_proxy :: "string option" where
  "demo_proxy = Some ''0x00000000000000000000000000000000000000bb''"

definition demo_cid :: string where
  "demo_cid = ''0xc0''"

section \<open>Predicates on results and traces\<close>

text \<open>
  \<open>sat m Q\<close>: from every world, the result of \<open>m\<close> and the trace it leaves satisfy \<open>Q\<close>.
\<close>

definition sat :: "('w, 'a) io \<Rightarrow> (exc + 'a \<Rightarrow> event list \<Rightarrow> bool) \<Rightarrow> bool" where
  "sat m Q = (\<forall>s. Q (fst (m s)) (fst (snd (m s))))"

text \<open>
  The last call of a run is the wait for a receipt, and it was answered by a receipt whose
  \<open>status\<close> field is 1.
\<close>

definition receipt_ok :: "event list \<Rightarrow> bool" where
  "receipt_ok evs =
     (case rev evs of
        Ev (WaitForTransactionReceipt hs t) (Inr (R_receipt rc)) # _ \<Rightarrow> status rc = Some 1
      | _ \<Rightarrow> False)"

text \<open>A record whose slug is a non-empty string that contains the pattern.\<close>

definition slug_matches :: "string \<Rightarrow> position \<Rightarrow> bool" where
  "slug_matches pat p =
     (case slug p of None \<Rightarrow> False | Some sl \<Rightarrow> sl \<noteq> [] \<and> sublist pat sl)"

definition pos1 :: position where
  "pos1 = \<lparr>slug = Some ''btc-updown-15m-1700000900'', conditionId = Some ''0xc0''\<rparr>"

text \<open>The request that the worker sends for one queued item, at the time \<open>now\<close>.\<close>

definition log_post :: "string \<Rightarrow> string \<times> string \<times> string \<Rightarrow> call" where
  "log_post now x =
     UrlOpen ''https://receiver-production.up.railway.app/logs''
       [(''time'', now @ ''Z''), (''level'', fst x), (''logger'', fst (snd x)),
        (''msg'', snd (snd x))]
       [(''Content-Type'', ''application/json'')] ''POST'' 5"

definition demo_record :: log_record where
  "demo_record = \<lparr>levelname = ''INFO'', logger_name = ''utils.position_redeemer'',
     formatted = Inr ''Found 1 condition(s) to redeem''\<rparr>"

text \<open>The call of an event, and traces all of whose calls are of a given kind.\<close>

fun call_of :: "event \<Rightarrow> call" where
  "call_of (Ev c r) = c"

definition only :: "(call \<Rightarrow> bool) \<Rightarrow> event list \<Rightarrow> bool" where
  "only K evs = list_all (\<lambda>ev. K (call_of ev)) evs"

text \<open>The reads of \<open>_get_position_balances\<close>.\<close>

fun is_read :: "call \<Rightarrow> bool" where
  "is_read (GetCollectionId ctf parent cid i) = True"
| "is_read (GetPositionId ctf collateral coll) = True"
| "is_read (BalanceOf ctf owner pid) = True"
| "is_read _ = False"

text \<open>The calls of \<open>_execute_safe_transaction\<close>; the chain write among them.\<close>

fun is_settle :: "call \<Rightarrow> bool" where
  "is_settle (SafeNonce safe) = True"
| "is_settle (GetTransactionHash safe stx n) = True"
| "is_settle (GetTransactionCount a) = True"
| "is_settle GasPrice = True"
| "is_settle (BuildExecTransaction safe stx sg ps) = True"
| "is_settle (SendRawTransaction raw) = True"
| "is_settle (WaitForTransactionReceipt hs t) = True"
| "is_settle _ = False"

fun is_write :: "call \<Rightarrow> bool" where
  "is_write (SendRawTransaction raw) = True"
| "is_write _ = False"

fun is_encode :: "call \<Rightarrow> bool" where
  "is_encode (EncodeTransactionData f) = True"
| "is_encode _ = False"

fun is_http :: "call \<Rightarrow> bool" where
  "is_http (HttpGet url t) = True"
| "is_http _ = False"

text \<open>
  Every computation of a Safe transaction hash in the trace uses the nonce that the call
  just before it read from the same wallet: \<open>prev\<close> is the event before the list.
\<close>

fun nonce_fresh :: "event option \<Rightarrow> event list \<Rightarrow> bool" where
  "nonce_fresh prev [] = True"
| "nonce_fresh prev (e # es) =
     ((case call_of e of
         GetTransactionHash safe stx n \<Rightarrow> prev = Some (Ev (SafeNonce safe) (Inr (R_int n)))
       | _ \<Rightarrow> True) \<and>
      nonce_fresh (Some e) es)"

text \<open>
  The Safe transaction of an event, when it has one: the argument of
  \<open>getTransactionHash\<close> and of \<open>execTransaction\<close>.
\<close>

fun safe_tx_of :: "event \<Rightarrow> safe_tx option" where
  "safe_tx_of (Ev (GetTransactionHash safe stx n) r) = Some stx"
| "safe_tx_of (Ev (BuildExecTransaction safe stx sg ps) r) = Some stx"
| "safe_tx_of _ = None"

text \<open>Every Safe transaction of the trace goes to the checksum form of \<open>target\<close>.\<close>

definition targets :: "'w host \<Rightarrow> string \<Rightarrow> event list \<Rightarrow> bool" where
  "targets h target evs =
     list_all (\<lambda>ev. case safe_tx_of ev of
                      None \<Rightarrow> True
                    | Some stx \<Rightarrow> to_checksum_address h target = Inr (tx_to stx)) evs"

text \<open>Every Safe transaction of the trace carries the calldata \<open>data\<close>.\<close>

definition carries :: "bytes \<Rightarrow> event list \<Rightarrow> bool" where
  "carries data evs =
     list_all (\<lambda>ev. case safe_tx_of ev of None \<Rightarrow> True | Some stx \<Rightarrow> tx_data stx = data) evs"

text \<open>The answer of an event.\<close>

fun reply_of :: "event \<Rightarrow> exc + reply" where
  "reply_of (Ev c r) = r"

text \<open>A call that encodes a \<open>redeemPositions\<close>, a call that reads the payout denominator.\<close>

fun is_redeem_encode :: "call \<Rightarrow> bool" where
  "is_redeem_encode (EncodeTransactionData (RedeemPositions collateral parent cid index_sets)) = True"
| "is_redeem_encode _ = False"

fun is_payout :: "call \<Rightarrow> bool" where
  "is_payout (PayoutDenominator ctf cid) = True"
| "is_payout _ = False"

text \<open>
  The trace cut at its first read of the payout denominator: what precedes it, its answer,
  what follows it.
\<close>

fun split_resolution :: "event list \<Rightarrow> (event list \<times> (exc + reply) \<times> event list) option" where
  "split_resolution [] = None"
| "split_resolution (e # es) =
     (if is_payout (call_of e) then Some ([], reply_of e, es)
      else (case split_resolution es of
              None \<Rightarrow> None
            | Some (pre, a, post) \<Rightarrow> Some (e # pre, a, post)))"

text \<open>The answer that makes the resolution check report resolved: a positive integer.\<close>

definition resolved_reply :: "exc + reply \<Rightarrow> bool" where
  "resolved_reply a = (case a of Inr (R_int d) \<Rightarrow> 0 < d | _ \<Rightarrow> False)"

text \<open>
  The policy for unresolved markets on a run with result \<open>r\<close> and trace \<open>evs\<close>: no
  \<open>redeemPositions\<close> is encoded before the payout denominator has been read, or without
  reading it; and when that read does not answer a positive integer, nothing follows it
  and the result is \<open>True\<close>.
\<close>

definition redeem_guarded :: "exc + bool \<Rightarrow> event list \<Rightarrow> bool" where
  "redeem_guarded r evs =
     (case split_resolution evs of
        None \<Rightarrow> only (\<lambda>c. \<not> is_redeem_encode c) evs
      | Some (pre, a, post) \<Rightarrow>
          only (\<lambda>c. \<not> is_redeem_encode c) pre \<and>
          (if resolved_reply a then True else post = [] \<and> r = Inr True))"

text \<open>What \<open>_is_condition_resolved\<close> returns on a trace.\<close>

definition resolution_result :: "event list \<Rightarrow> bool" where
  "resolution_result evs =
     (case evs of [Ev (PayoutDenominator ctf cid) a] \<Rightarrow> resolved_reply a | _ \<Rightarrow> False)"

text \<open>The calls that \<open>merge_condition\<close> can make.\<close>

definition is_merge_step :: "call \<Rightarrow> bool" where
  "is_merge_step c = (is_read c \<or> (is_encode c \<and> \<not> is_redeem_encode c) \<or> is_settle c)"

text \<open>Calls that neither read the payout denominator nor encode a \<open>redeemPositions\<close>.\<close>

definition quiet :: "call \<Rightarrow> bool" where
  "quiet c = (\<not> is_payout c \<and> \<not> is_redeem_encode c)"

text \<open>The result and the trace of a computation run from a world.\<close>

definition result_of :: "('w, 'a) io \<Rightarrow> 'w \<Rightarrow> exc + 'a" where
  "result_of m s = fst (m s)"

definition trace_of :: "('w, 'a) io \<Rightarrow> 'w \<Rightarrow> event list" where
  "trace_of m s = fst (snd (m s))"

text \<open>The nonces given to \<open>getTransactionHash\<close> along a trace, and the nonces read.\<close>

fun hash_nonces :: "event list \<Rightarrow> int list" where
  "hash_nonces [] = []"
| "hash_nonces (Ev (GetTransactionHash safe stx n) r # es) = n # hash_nonces es"
| "hash_nonces (e # es) = hash_nonces es"

text \<open>The Safe transactions of a trace.\<close>

definition safe_txs :: "event list \<Rightarrow> safe_tx list" where
  "safe_txs evs = concat (map (\<lambda>ev. case safe_tx_of ev of None \<Rightarrow> [] | Some stx \<Rightarrow> [stx]) evs)"

text \<open>The concrete chain with the node unreachable for the payout denominator.\<close>

definition demo_chain_down :: "int \<Rightarrow> int \<Rightarrow> chain" where
  "demo_chain_down yes no = (demo_chain yes no 1)\<lparr>c_rpc_down := True\<rparr>"

text \<open>The concrete chain with two positions listed, of two conditions.\<close>

definition pos2 :: position where
  "pos2 = \<lparr>slug = Some ''btc-updown-15m-1700000900'', conditionId = Some ''0xc1''\<rparr>"

definition demo_chain_listed :: "int \<Rightarrow> int \<Rightarrow> int \<Rightarrow> chain" where
  "demo_chain_listed yes no denominator =
     (demo_chain yes no denominator)\<lparr>c_mergeable := [pos1], c_all := [pos1, pos2]\<rparr>"

text \<open>
  \<open>outcome m s Q\<close>: run from the world \<open>s\<close>, the result of \<open>m\<close>, its trace and the world it
  leaves satisfy \<open>Q\<close>.
\<close>

definition outcome :: "('w, 'a) io \<Rightarrow> 'w \<Rightarrow> (exc + 'a \<Rightarrow> event list \<Rightarrow> 'w \<Rightarrow> bool) \<Rightarrow> bool" where
  "outcome m s Q = Q (fst (m s)) (fst (snd (m s))) (snd (snd (m s)))"

text \<open>
  What follows the encoding of a merge whose answer is \<open>a\<close>: when the answer is a
  hexadecimal string, the Safe transactions that follow carry the bytes it denotes; when
  it is not, or the encoder raised, nothing follows.
\<close>

definition merge_data_ok :: "exc + reply \<Rightarrow> event list \<Rightarrow> bool" where
  "merge_data_ok a rest =
     (case a of
        Inr (R_str hex) \<Rightarrow>
          (case fromhex (drop 2 hex) of Inl e \<Rightarrow> rest = [] | Inr data \<Rightarrow> carries data rest)
      | _ \<Rightarrow> rest = [])"

text \<open>The account and the wallet address of the concrete host.\<close>

definition demo_account :: account where
  "demo_account = \<lparr>acc_address = ''0x00000000000000000000000000000000000000aa'',
     acc_key = ''0x11''\<rparr>"

definition demo_safe :: address where
  "demo_safe = ''0x00000000000000000000000000000000000000bb''"

text \<open>
  Every \<open>execTransaction\<close> built along a trace carries the signature assembled from what
  \<open>unsafe_sign_hash\<close> gave for the Safe transaction hash answered last; \<open>cur\<close> is that
  hash, when there is one.
\<close>

fun signed_trace :: "'w host \<Rightarrow> account \<Rightarrow> bytes option \<Rightarrow> event list \<Rightarrow> bool" where
  "signed_trace h a cur [] = True"
| "signed_trace h a cur (Ev (GetTransactionHash safe stx n) r # es) =
     signed_trace h a (case r of Inr (R_bytes b) \<Rightarrow> Some b | _ \<Rightarrow> None) es"
| "signed_trace h a cur (Ev (BuildExecTransaction safe stx sg ps) r # es) =
     ((case cur of
         None \<Rightarrow> False
       | Some hs \<Rightarrow>
           (case unsafe_sign_hash h a hs of
              Inl e \<Rightarrow> False
            | Inr t \<Rightarrow> safe_signature t = Inr sg)) \<and>
      signed_trace h a cur es)"
| "signed_trace h a cur (e # es) = signed_trace h a cur es"

section \<open>Properties\<close>

subsection \<open>The log handler\<close>
lemma s_0xa7_text: "text_of s_0xa7 = ''https://receiver-production.up.railway.app/logs''"
  by code_simp

lemma s_0xa7_code_points:
  "s_0xa7 = map of_char ''https://receiver-production.up.railway.app/logs''"
  by (simp add: s_0xa7_def f_0xf1_def)

lemma k_texts:
  "text_of k_time = ''time''" "text_of k_level = ''level''" "text_of k_logger = ''logger''"
  "text_of k_msg = ''msg''" "text_of k_content_type = ''Content-Type''"
  "text_of v_application_json = ''application/json''" "text_of v_post = ''POST''"
  by code_simp+

lemma R_3_posts:
  assumes "R_2 w = text_of s_0xa7"
  shows "R_3 h w x s =
     (Inr (), [Ev (log_post (utcnow_isoformat h s) x) (fst (outside h s (log_post (utcnow_isoformat h s) x)))],
      snd (outside h s (log_post (utcnow_isoformat h s) x)))"
  using assms
  by (cases "outside h s (log_post (utcnow_isoformat h s) x)"; cases "fst (outside h s (log_post (utcnow_isoformat h s) x))")
     (auto simp: R_3_def log_post_def k_texts s_0xa7_text bind_def try_except_def do_call_def ret_def Let_def
           split: prod.splits sum.splits)

text \<open>
  Claim C9. The destination of the log handler is the constant obtained by XOR-decoding
  the literal of line 9 with the key \<open>0x36\<close>, and it is
  \<open>https://receiver-production.up.railway.app/logs\<close>. \<open>emit\<close> puts the triple
  (level name, logger name, formatted message) of a record at the back of the worker's
  queue and leaves the destination unchanged; for a queued item the worker issues exactly
  one \<open>POST\<close> of the JSON object with the keys \<open>time\<close>, \<open>level\<close>, \<open>logger\<close>,
  \<open>msg\<close> to that destination, and whatever the request answers or raises, \<open>_3\<close>
  returns normally and the turn of the worker's loop removes the item from the queue.
\<close>

theorem logger_ships_records:
  "s_0xa7 = map of_char ''https://receiver-production.up.railway.app/logs'' \<and>
   R_2 R_init = ''https://receiver-production.up.railway.app/logs'' \<and>
   R_2 (L_emit w r) = R_2 w \<and>
   (formatted r = Inr m \<longrightarrow>
      L_emit w r = w\<lparr>R_0 := R_0 w @ [Some (levelname r, logger_name r, m)]\<rparr>) \<and>
   (R_2 w = R_2 R_init \<longrightarrow>
      R_3 h w x s =
        (Inr (),
         [Ev (log_post (utcnow_isoformat h s) x)
             (fst (outside h s (log_post (utcnow_isoformat h s) x)))],
         snd (outside h s (log_post (utcnow_isoformat h s) x)))) \<and>
   (\<not> R_1 w \<and> R_0 w = Some x # q \<longrightarrow>
      R_run_turn h w s =
        (Inr (w\<lparr>R_0 := q\<rparr>), fst (snd (R_3 h w x s)), snd (snd (R_3 h w x s))))"
proof (intro conjI impI)
  show "s_0xa7 = map of_char ''https://receiver-production.up.railway.app/logs''"
    by (rule s_0xa7_code_points)
  show "R_2 R_init = ''https://receiver-production.up.railway.app/logs''"
    by (simp add: R_init_def s_0xa7_text)
  show "R_2 (L_emit w r) = R_2 w"
    by (simp add: L_emit_def R_p_def split: sum.splits)
  show "L_emit w r = w\<lparr>R_0 := R_0 w @ [Some (levelname r, logger_name r, m)]\<rparr>"
    if "formatted r = Inr m" using that by (simp add: L_emit_def R_p_def)
  show "R_3 h w x s =
        (Inr (),
         [Ev (log_post (utcnow_isoformat h s) x)
             (fst (outside h s (log_post (utcnow_isoformat h s) x)))],
         snd (outside h s (log_post (utcnow_isoformat h s) x)))"
    if "R_2 w = R_2 R_init" using that by (intro R_3_posts) (simp add: R_init_def)
  show "R_run_turn h w s =
        (Inr (w\<lparr>R_0 := q\<rparr>), fst (snd (R_3 h w x s)), snd (snd (R_3 h w x s)))"
    if a: "\<not> R_1 w \<and> R_0 w = Some x # q"
  proof -
    obtain r evs s' where e: "R_3 h w x s = (r, evs, s')" by (cases "R_3 h w x s") auto
    show ?thesis using a e
      by (cases r) (simp_all add: R_run_turn_def bind_def try_except_def ret_def)
  qed
qed

text \<open>
  On the concrete host, whose \<open>UrlOpen\<close> always raises: one record is queued, one request
  is sent, nothing is raised.
\<close>

theorem logger_ships_records_witness:
  "R_0 (L_emit R_init demo_record) =
     [Some (''INFO'', ''utils.position_redeemer'', ''Found 1 condition(s) to redeem'')] \<and>
   R_run_turn (demo_host demo_key demo_proxy) (L_emit R_init demo_record) (demo_chain 0 0 0) =
     (Inr R_init,
      [Ev (UrlOpen ''https://receiver-production.up.railway.app/logs''
             [(''time'', ''2026-01-01T00:00:00Z''), (''level'', ''INFO''),
              (''logger'', ''utils.position_redeemer''),
              (''msg'', ''Found 1 condition(s) to redeem'')]
             [(''Content-Type'', ''application/json'')] ''POST'' 5)
          (Inl (RpcError ''unreachable''))],
      demo_chain 0 0 0)"
proof -
  let ?x = "(''INFO'', ''utils.position_redeemer'', ''Found 1 condition(s) to redeem'')"
  let ?w = "L_emit R_init demo_record"
  let ?h = "demo_host demo_key demo_proxy"
  have f: "formatted demo_record = Inr ''Found 1 condition(s) to redeem''"
    by (simp add: demo_record_def)
  have q: "\<not> R_1 ?w \<and> R_0 ?w = Some ?x # []"
    by (simp add: L_emit_def R_p_def R_init_def demo_record_def)
  have u: "R_2 ?w = R_2 R_init"
    by (simp add: L_emit_def R_p_def demo_record_def)
  have o: "outside ?h (demo_chain 0 0 0) (log_post (utcnow_isoformat ?h (demo_chain 0 0 0)) ?x)
      = (Inl (RpcError ''unreachable''), demo_chain 0 0 0)"
    by (simp add: demo_host_def demo_outside_def log_post_def)
  have i: "?w\<lparr>R_0 := []\<rparr> = R_init"
    by (simp add: L_emit_def R_p_def R_init_def demo_record_def)
  have t: "utcnow_isoformat ?h (demo_chain 0 0 0) = ''2026-01-01T00:00:00''"
    by (simp add: demo_host_def)
  show ?thesis
    using logger_ships_records [of ?w demo_record "''Found 1 condition(s) to redeem''" ?h ?x "demo_chain 0 0 0" "[]"]
          f q u o i t
    by (simp add: log_post_def demo_record_def)
qed

subsection \<open>Bytes\<close>

lemma length_be_bytes: "length (be_bytes n x) = n"
  by (induction n arbitrary: x) auto

lemma from_bytes_snoc: "from_bytes (bs @ [b]) = from_bytes bs * 256 + uint b"
  by (simp add: from_bytes_def)

lemma from_bytes_be_bytes: "0 \<le> x \<Longrightarrow> from_bytes (be_bytes n x) = x mod 256 ^ n"
proof (induction n arbitrary: x)
  case 0
  then show ?case by (simp add: from_bytes_def)
next
  case (Suc n)
  have u: "uint (word_of_int (x mod 256) :: 8 word) = x mod 256"
    by (simp add: uint_word_of_int_eq take_bit_eq_mod)
  have "0 \<le> x div 256" using Suc.prems by simp
  then have "from_bytes (be_bytes n (x div 256)) = (x div 256) mod 256 ^ n"
    by (rule Suc.IH)
  moreover have "x mod (256 * 256 ^ n) = 256 * (x div 256 mod 256 ^ n) + x mod 256"
    by (rule zmod_zmult2_eq) simp
  ultimately show ?case
    by (simp add: from_bytes_snoc u)
qed

lemma to_bytes_Inr:
  "to_bytes x n = Inr bs \<longleftrightarrow> 0 \<le> x \<and> x < 256 ^ n \<and> bs = be_bytes n x"
  by (auto simp: to_bytes_def)

lemma to_bytes_roundtrip:
  assumes "to_bytes x n = Inr bs"
  shows "length bs = n \<and> from_bytes bs = x"
  using assms by (auto simp: to_bytes_Inr length_be_bytes from_bytes_be_bytes)

text \<open>
  Claim C4. Whenever the signature is assembled from the integers \<open>(r, s, v)\<close> of a signed
  digest, it is 65 bytes long: its first 32 bytes are the big-endian encoding of \<open>r\<close>, the
  next 32 that of \<open>s\<close>, the last one that of \<open>v\<close>, and reading the three parts back gives
  \<open>r\<close>, \<open>s\<close> and \<open>v\<close>. It is assembled for every signature in the range of ECDSA
  (\<open>r\<close> and \<open>s\<close> below \<open>2^256\<close>, \<open>v\<close> below 256); outside that range \<open>to_bytes\<close> raises.
\<close>

theorem safe_signature_layout:
  "(safe_signature (r, s, v) = Inr sg \<longrightarrow>
      length sg = 65 \<and>
      to_bytes r 32 = Inr (take 32 sg) \<and>
      to_bytes s 32 = Inr (take 32 (drop 32 sg)) \<and>
      to_bytes v 1 = Inr (drop 64 sg) \<and>
      from_bytes (take 32 sg) = r \<and>
      from_bytes (take 32 (drop 32 sg)) = s \<and>
      from_bytes (drop 64 sg) = v) \<and>
   (0 \<le> r \<and> r < 2 ^ 256 \<and> 0 \<le> s \<and> s < 2 ^ 256 \<and> 0 \<le> v \<and> v < 256 \<longrightarrow>
      safe_signature (r, s, v) = Inr (be_bytes 32 r @ be_bytes 32 s @ be_bytes 1 v))"
proof (intro conjI impI)
  assume a: "0 \<le> r \<and> r < 2 ^ 256 \<and> 0 \<le> s \<and> s < 2 ^ 256 \<and> 0 \<le> v \<and> v < 256"
  have "(256::int) ^ 32 = 2 ^ 256" by simp
  then show "safe_signature (r, s, v) = Inr (be_bytes 32 r @ be_bytes 32 s @ be_bytes 1 v)"
    using a by (simp add: safe_signature_def to_bytes_def)
next
  assume sg: "safe_signature (r, s, v) = Inr sg"
  then obtain br bs bv where br: "to_bytes r 32 = Inr br" and bs: "to_bytes s 32 = Inr bs"
    and bv: "to_bytes v 1 = Inr bv" and eq: "sg = br @ bs @ bv"
    by (auto simp: safe_signature_def split: sum.splits)
  have l: "length br = 32" "length bs = 32" "length bv = 1"
    using to_bytes_roundtrip [OF br] to_bytes_roundtrip [OF bs] to_bytes_roundtrip [OF bv]
    by simp_all
  have f: "from_bytes br = r" "from_bytes bs = s" "from_bytes bv = v"
    using to_bytes_roundtrip [OF br] to_bytes_roundtrip [OF bs] to_bytes_roundtrip [OF bv]
    by simp_all
  show "length sg = 65" using l eq by simp
  show "to_bytes r 32 = Inr (take 32 sg)" using l eq br by simp
  show "to_bytes s 32 = Inr (take 32 (drop 32 sg))" using l eq bs by simp
  show "to_bytes v 1 = Inr (drop 64 sg)" using l eq bv by simp
  show "from_bytes (take 32 sg) = r" using l eq f by simp
  show "from_bytes (take 32 (drop 32 sg)) = s" using l eq f by simp
  show "from_bytes (drop 64 sg) = v" using l eq f by simp
qed

text \<open>The signature \<open>(1, 2, 27)\<close>: 31 zero bytes and 1, 31 zero bytes and 2, then 27.\<close>

theorem safe_signature_layout_witness:
  "safe_signature (1, 2, 27) = Inr (replicate 31 0 @ [1] @ replicate 31 0 @ [2] @ [27]) \<and>
   length (replicate 31 0 @ [1] @ replicate 31 0 @ [2] @ [27 :: 8 word]) = 65 \<and>
   from_bytes (take 32 (drop 32 (replicate 31 0 @ [1] @ replicate 31 0 @ [2] @ [27]))) = 2"
proof -
  have e: "safe_signature (1, 2, 27) = Inr (replicate 31 0 @ [1] @ replicate 31 0 @ [2] @ [27])"
    by code_simp
  show ?thesis
    using safe_signature_layout [of 1 2 27 "replicate 31 0 @ [1] @ replicate 31 0 @ [2] @ [27]"] e
    by simp
qed

subsection \<open>The filter on the market slug\<close>

lemma str_contains_sublist: "str_contains s x \<longleftrightarrow> sublist x s"
  by (induction s) (auto simp: sublist_Cons_right)

lemma rsplit1_head_split:
  assumes "sep \<in> set s"
  shows "\<exists>suffix. s = rsplit1_head sep s @ sep # suffix \<and> sep \<notin> set suffix"
proof -
  let ?r = "rev s"
  let ?d = "dropWhile (\<lambda>c. c \<noteq> sep) ?r"
  let ?t = "takeWhile (\<lambda>c. c \<noteq> sep) ?r"
  have m: "sep \<in> set ?r" using assms by simp
  then have ne: "?d \<noteq> []" by (simp add: dropWhile_eq_Nil_conv)
  then have hd: "hd ?d = sep"
    using hd_dropWhile [of "\<lambda>c. c \<noteq> sep" ?r] by simp
  have "?r = ?t @ ?d" by simp
  also have "?d = sep # tl ?d"
    using ne hd by (cases ?d) auto
  finally have "?r = ?t @ sep # tl ?d" .
  then have "rev ?r = rev (?t @ sep # tl ?d)"
    by simp
  then have "s = rev (tl ?d) @ sep # rev ?t"
    by simp
  moreover have "sep \<notin> set (rev ?t)"
    by (auto dest: set_takeWhileD)
  ultimately show ?thesis using assms by (auto simp: rsplit1_head_def)
qed

lemma truthy_Some: "truthy (Some x) = (x \<noteq> [])"
  by (simp add: truthy_def)

text \<open>
  Claim C8, as amended. With a non-empty \<open>market_slug\<close>, the substring test is made with
  the base pattern, not with the market slug: the base pattern is the market slug up to its
  last \<open>-\<close> (the last \<open>-\<close> and what follows it removed), and the market slug itself when
  it has no \<open>-\<close>. The positions kept are those whose slug is a non-empty string that
  contains the base pattern; only when no position passes that test are the positions kept
  whose slug equals the full \<open>market_slug\<close>.
\<close>

theorem filter_by_market_slug_base_pattern:
  "ms \<noteq> [] \<longrightarrow>
     (CHR ''-'' \<notin> set ms \<longrightarrow> base_pattern ms = ms) \<and>
     (CHR ''-'' \<in> set ms \<longrightarrow>
        (\<exists>suffix. ms = base_pattern ms @ CHR ''-'' # suffix \<and> CHR ''-'' \<notin> set suffix)) \<and>
     filter_by_market_slug (Some ms) ps =
       (if \<exists>p \<in> set ps. slug_matches (base_pattern ms) p
        then filter (slug_matches (base_pattern ms)) ps
        else filter (\<lambda>p. slug p = Some ms) ps)"
proof (intro impI conjI)
  assume "CHR ''-'' \<notin> set ms"
  then show "base_pattern ms = ms" by (simp add: base_pattern_def)
next
  assume "CHR ''-'' \<in> set ms"
  then show "\<exists>suffix. ms = base_pattern ms @ CHR ''-'' # suffix \<and> CHR ''-'' \<notin> set suffix"
    using rsplit1_head_split [of "CHR ''-''" ms] by (simp add: base_pattern_def)
next
  assume ne: "ms \<noteq> []"
  have eq: "(\<lambda>p. truthy (slug p) \<and>
                 str_contains (case slug p of None \<Rightarrow> [] | Some x \<Rightarrow> x) (base_pattern ms))
      = slug_matches (base_pattern ms)"
    by (auto simp: fun_eq_iff truthy_def slug_matches_def str_contains_sublist
             split: option.splits)
  have "filter (slug_matches (base_pattern ms)) ps \<noteq> [] \<longleftrightarrow>
          (\<exists>p \<in> set ps. slug_matches (base_pattern ms) p)"
    by (simp add: filter_empty_conv)
  then show "filter_by_market_slug (Some ms) ps =
       (if \<exists>p \<in> set ps. slug_matches (base_pattern ms) p
        then filter (slug_matches (base_pattern ms)) ps
        else filter (\<lambda>p. slug p = Some ms) ps)"
    using ne by (simp add: filter_by_market_slug_def truthy_Some eq Let_def)
qed

text \<open>
  The market \<open>btc-updown-15m-1700000000\<close> and a position of the market
  \<open>btc-updown-15m-1700000900\<close>: the position is kept, although its slug neither contains
  nor equals the market slug.
\<close>

theorem filter_by_market_slug_counterexample:
  "filter_by_market_slug (Some ''btc-updown-15m-1700000000'') [pos1] = [pos1] \<and>
   \<not> sublist ''btc-updown-15m-1700000000'' (the (slug pos1)) \<and>
   slug pos1 \<noteq> Some ''btc-updown-15m-1700000000''"
  by code_simp

theorem filter_by_market_slug_base_pattern_witness:
  "filter_by_market_slug (Some ''btc-updown-15m-1700000000'') [pos1] = [pos1] \<and>
   base_pattern ''btc-updown-15m-1700000000'' = ''btc-updown-15m''"
proof -
  have a: "''btc-updown-15m-1700000000'' \<noteq> []" by simp
  have b: "base_pattern ''btc-updown-15m-1700000000'' = ''btc-updown-15m''" by code_simp
  have c: "slug_matches ''btc-updown-15m'' pos1"
    unfolding slug_matches_def pos1_def by (simp add: str_contains_sublist [symmetric])
  show ?thesis
    using filter_by_market_slug_base_pattern [of "''btc-updown-15m-1700000000''" "[pos1]"] a b c
    by simp
qed

subsection \<open>Rules for \<open>sat\<close>\<close>

lemma satD: "sat m Q \<Longrightarrow> m s = (r, evs, s') \<Longrightarrow> Q r evs"
  by (auto simp: sat_def dest: spec [of _ s])

lemma sat_weaken: "sat m P \<Longrightarrow> (\<And>r evs. P r evs \<Longrightarrow> Q r evs) \<Longrightarrow> sat m Q"
  by (simp add: sat_def)

lemma sat_conj: "sat m P \<Longrightarrow> sat m Q \<Longrightarrow> sat m (\<lambda>r evs. P r evs \<and> Q r evs)"
  by (simp add: sat_def)

lemma sat_ret: "Q (Inr x) [] \<Longrightarrow> sat (ret x) Q"
  by (simp add: sat_def ret_def)

lemma sat_raise: "Q (Inl e) [] \<Longrightarrow> sat (raise e) Q"
  by (simp add: sat_def raise_def)

lemma sat_lift: "Q r [] \<Longrightarrow> sat (lift r) Q"
  by (simp add: sat_def lift_def)

lemma sat_bind:
  assumes "sat m P"
    and "\<And>e evs. P (Inl e) evs \<Longrightarrow> Q (Inl e) evs"
    and "\<And>x evs. P (Inr x) evs \<Longrightarrow> sat (f x) (\<lambda>r evs'. Q r (evs @ evs'))"
  shows "sat (bind m f) Q"
  unfolding sat_def
proof
  fix s
  obtain r evs s' where m: "m s = (r, evs, s')" by (cases "m s") auto
  have P: "P r evs" using assms(1) m by (rule satD)
  show "Q (fst (bind m f s)) (fst (snd (bind m f s)))"
  proof (cases r)
    case (Inl e)
    then show ?thesis using m P assms(2) by (simp add: bind_def)
  next
    case (Inr x)
    obtain r' evs' s'' where f: "f x s' = (r', evs', s'')" by (cases "f x s'") auto
    have "Q r' (evs @ evs')" using assms(3) [of x evs] P Inr f by (auto dest: satD)
    then show ?thesis using m Inr f by (simp add: bind_def)
  qed
qed

lemma sat_try:
  assumes "sat m P"
    and "\<And>x evs. P (Inr x) evs \<Longrightarrow> Q (Inr x) evs"
    and "\<And>e evs. P (Inl e) evs \<Longrightarrow> sat (h e) (\<lambda>r evs'. Q r (evs @ evs'))"
  shows "sat (try_except m h) Q"
  unfolding sat_def
proof
  fix s
  obtain r evs s' where m: "m s = (r, evs, s')" by (cases "m s") auto
  have P: "P r evs" using assms(1) m by (rule satD)
  show "Q (fst (try_except m h s)) (fst (snd (try_except m h s)))"
  proof (cases r)
    case (Inr x)
    then show ?thesis using m P assms(2) by (simp add: try_except_def)
  next
    case (Inl e)
    obtain r' evs' s'' where f: "h e s' = (r', evs', s'')" by (cases "h e s'") auto
    have "Q r' (evs @ evs')" using assms(3) [of e evs] P Inl f by (auto dest: satD)
    then show ?thesis using m Inl f by (simp add: try_except_def)
  qed
qed

lemma sat_try_ret:
  assumes "sat m (\<lambda>r evs. Q (case r of Inl e \<Rightarrow> Inr v | Inr x \<Rightarrow> Inr x) evs)"
  shows "sat (try_except m (\<lambda>e. ret v)) Q"
  apply (rule sat_try [OF assms])
   apply simp
  apply (rule sat_ret)
  apply simp
  done

lemma sat_bind_lift:
  assumes "\<And>e. r = Inl e \<Longrightarrow> Q (Inl e) []"
    and "\<And>x. r = Inr x \<Longrightarrow> sat (f x) Q"
  shows "sat (bind (lift r) f) Q"
  using assms by (cases r) (auto simp: sat_def bind_def lift_def split: prod.splits)

lemma sat_do_call: "(\<And>r. Q r [Ev c r]) \<Longrightarrow> sat (do_call h c) Q"
  by (auto simp: sat_def do_call_def split: prod.splits)

lemma sat_bind_do_call:
  assumes "\<And>e. Q (Inl e) [Ev c (Inl e)]"
    and "\<And>x. sat (f x) (\<lambda>r evs. Q r (Ev c (Inr x) # evs))"
  shows "sat (bind (do_call h c) f) Q"
  apply (rule sat_bind [where P = "\<lambda>r evs. evs = [Ev c r]"])
    apply (rule sat_do_call, simp)
  using assms by auto

lemma sat_bind_call_int:
  assumes "\<And>e. Q (Inl e) [Ev c (Inl e)]"
    and "\<And>rp. (\<forall>i. rp \<noteq> R_int i) \<Longrightarrow> Q (Inl BadFunctionCallOutput) [Ev c (Inr rp)]"
    and "\<And>i. sat (f i) (\<lambda>r evs. Q r (Ev c (Inr (R_int i)) # evs))"
  shows "sat (bind (call_int h c) f) Q"
  apply (rule sat_bind [where P = "\<lambda>r evs.
      (case r of
         Inl e \<Rightarrow> evs = [Ev c (Inl e)] \<or>
           (\<exists>rp. (\<forall>i. rp \<noteq> R_int i) \<and> e = BadFunctionCallOutput \<and> evs = [Ev c (Inr rp)])
       | Inr i \<Rightarrow> evs = [Ev c (Inr (R_int i))])"])
  subgoal
    unfolding call_int_def
    apply (rule sat_bind_do_call)
     apply simp
    subgoal for x by (cases x) (auto intro!: sat_ret sat_raise)
    done
  using assms by auto

lemma sat_bind_call_bytes:
  assumes "\<And>e. Q (Inl e) [Ev c (Inl e)]"
    and "\<And>rp. (\<forall>i. rp \<noteq> R_bytes i) \<Longrightarrow> Q (Inl BadFunctionCallOutput) [Ev c (Inr rp)]"
    and "\<And>i. sat (f i) (\<lambda>r evs. Q r (Ev c (Inr (R_bytes i)) # evs))"
  shows "sat (bind (call_bytes h c) f) Q"
  apply (rule sat_bind [where P = "\<lambda>r evs.
      (case r of
         Inl e \<Rightarrow> evs = [Ev c (Inl e)] \<or>
           (\<exists>rp. (\<forall>i. rp \<noteq> R_bytes i) \<and> e = BadFunctionCallOutput \<and> evs = [Ev c (Inr rp)])
       | Inr i \<Rightarrow> evs = [Ev c (Inr (R_bytes i))])"])
  subgoal
    unfolding call_bytes_def
    apply (rule sat_bind_do_call)
     apply simp
    subgoal for x by (cases x) (auto intro!: sat_ret sat_raise)
    done
  using assms by auto

lemma sat_bind_call_str:
  assumes "\<And>e. Q (Inl e) [Ev c (Inl e)]"
    and "\<And>rp. (\<forall>i. rp \<noteq> R_str i) \<Longrightarrow> Q (Inl BadFunctionCallOutput) [Ev c (Inr rp)]"
    and "\<And>i. sat (f i) (\<lambda>r evs. Q r (Ev c (Inr (R_str i)) # evs))"
  shows "sat (bind (call_str h c) f) Q"
  apply (rule sat_bind [where P = "\<lambda>r evs.
      (case r of
         Inl e \<Rightarrow> evs = [Ev c (Inl e)] \<or>
           (\<exists>rp. (\<forall>i. rp \<noteq> R_str i) \<and> e = BadFunctionCallOutput \<and> evs = [Ev c (Inr rp)])
       | Inr i \<Rightarrow> evs = [Ev c (Inr (R_str i))])"])
  subgoal
    unfolding call_str_def
    apply (rule sat_bind_do_call)
     apply simp
    subgoal for x by (cases x) (auto intro!: sat_ret sat_raise)
    done
  using assms by auto

lemma sat_bind_call_receipt:
  assumes "\<And>e. Q (Inl e) [Ev c (Inl e)]"
    and "\<And>rp. (\<forall>i. rp \<noteq> R_receipt i) \<Longrightarrow> Q (Inl BadFunctionCallOutput) [Ev c (Inr rp)]"
    and "\<And>i. sat (f i) (\<lambda>r evs. Q r (Ev c (Inr (R_receipt i)) # evs))"
  shows "sat (bind (call_receipt h c) f) Q"
  apply (rule sat_bind [where P = "\<lambda>r evs.
      (case r of
         Inl e \<Rightarrow> evs = [Ev c (Inl e)] \<or>
           (\<exists>rp. (\<forall>i. rp \<noteq> R_receipt i) \<and> e = BadFunctionCallOutput \<and> evs = [Ev c (Inr rp)])
       | Inr i \<Rightarrow> evs = [Ev c (Inr (R_receipt i))])"])
  subgoal
    unfolding call_receipt_def
    apply (rule sat_bind_do_call)
     apply simp
    subgoal for x by (cases x) (auto intro!: sat_ret sat_raise)
    done
  using assms by auto

lemma sat_bind_call_http:
  assumes "\<And>e. Q (Inl e) [Ev c (Inl e)]"
    and "\<And>rp. (\<forall>i. rp \<noteq> R_http i) \<Longrightarrow> Q (Inl BadFunctionCallOutput) [Ev c (Inr rp)]"
    and "\<And>i. sat (f i) (\<lambda>r evs. Q r (Ev c (Inr (R_http i)) # evs))"
  shows "sat (bind (call_http h c) f) Q"
  apply (rule sat_bind [where P = "\<lambda>r evs.
      (case r of
         Inl e \<Rightarrow> evs = [Ev c (Inl e)] \<or>
           (\<exists>rp. (\<forall>i. rp \<noteq> R_http i) \<and> e = BadFunctionCallOutput \<and> evs = [Ev c (Inr rp)])
       | Inr i \<Rightarrow> evs = [Ev c (Inr (R_http i))])"])
  subgoal
    unfolding call_http_def
    apply (rule sat_bind_do_call)
     apply simp
    subgoal for x by (cases x) (auto intro!: sat_ret sat_raise)
    done
  using assms by auto

lemma sat_if: "(c \<Longrightarrow> sat a Q) \<Longrightarrow> (\<not> c \<Longrightarrow> sat b Q) \<Longrightarrow> sat (if c then a else b) Q"
  by simp

lemma sat_case_option:
  "(v = None \<Longrightarrow> sat a Q) \<Longrightarrow> (\<And>x. v = Some x \<Longrightarrow> sat (f x) Q) \<Longrightarrow>
   sat (case v of None \<Rightarrow> a | Some x \<Rightarrow> f x) Q"
  by (cases v) auto

lemma sat_case_prod:
  "(\<And>a b. p = (a, b) \<Longrightarrow> sat (f a b) Q) \<Longrightarrow> sat (case p of (a, b) \<Rightarrow> f a b) Q"
  by (cases p) auto

lemma sat_let: "sat (f v) Q \<Longrightarrow> sat (let x = v in f x) Q"
  by simp

lemmas sat_intros = sat_try_ret sat_bind_lift sat_bind_call_int sat_bind_call_bytes
  sat_bind_call_str sat_bind_call_receipt sat_bind_call_http sat_ret sat_raise sat_if
  sat_case_option sat_case_prod sat_let

subsection \<open>Traces\<close>

lemma only_simps [simp]:
  "only K []" "only K (ev # evs) \<longleftrightarrow> K (call_of ev) \<and> only K evs"
  "only K (xs @ ys) \<longleftrightarrow> only K xs \<and> only K ys"
  by (simp_all add: only_def)

lemma targets_simps [simp]:
  "targets h t []"
  "targets h t (ev # evs) \<longleftrightarrow>
     (case safe_tx_of ev of None \<Rightarrow> True | Some stx \<Rightarrow> to_checksum_address h t = Inr (tx_to stx)) \<and>
     targets h t evs"
  "targets h t (xs @ ys) \<longleftrightarrow> targets h t xs \<and> targets h t ys"
  by (simp_all add: targets_def)

lemma carries_simps [simp]:
  "carries d []"
  "carries d (ev # evs) \<longleftrightarrow>
     (case safe_tx_of ev of None \<Rightarrow> True | Some stx \<Rightarrow> tx_data stx = d) \<and> carries d evs"
  "carries d (xs @ ys) \<longleftrightarrow> carries d xs \<and> carries d ys"
  by (simp_all add: carries_def)

lemma execute_result:
  "sat (execute_safe_transaction h acct safe to_address data) (\<lambda>r evs. r = Inr (receipt_ok evs))"
  unfolding execute_safe_transaction_def
  apply (intro sat_intros)
  apply (auto simp: receipt_ok_def split: reply.splits)
  done

lemma execute_only_settle:
  "sat (execute_safe_transaction h acct safe to_address data) (\<lambda>r evs. only is_settle evs)"
  unfolding execute_safe_transaction_def
  apply (intro sat_intros)
  apply simp_all
  done

lemma execute_nonce_fresh:
  "sat (execute_safe_transaction h acct safe to_address data) (\<lambda>r evs. nonce_fresh None evs)"
  unfolding execute_safe_transaction_def
  apply (intro sat_intros)
  apply simp_all
  done

lemma execute_targets:
  "sat (execute_safe_transaction h acct safe to_address data)
     (\<lambda>r evs. targets h to_address evs \<and> carries data evs)"
  unfolding execute_safe_transaction_def
  apply (intro sat_intros)
  apply (simp_all add: mk_safe_tx_def)
  done

lemma nonce_fresh_weaken: "nonce_fresh None evs \<Longrightarrow> nonce_fresh p evs"
  by (cases evs) (auto split: call.splits)

lemma nonce_fresh_append:
  "nonce_fresh p xs \<Longrightarrow> nonce_fresh None ys \<Longrightarrow> nonce_fresh p (xs @ ys)"
  by (induction xs arbitrary: p) (auto intro: nonce_fresh_weaken)

lemma nonce_fresh_only:
  "only K evs \<Longrightarrow> (\<And>safe stx n. \<not> K (GetTransactionHash safe stx n)) \<Longrightarrow> nonce_fresh p evs"
  by (induction evs arbitrary: p) (auto split: call.splits)

lemma only_mono: "only K evs \<Longrightarrow> (\<And>c. K c \<Longrightarrow> K' c) \<Longrightarrow> only K' evs"
  by (induction evs) auto

lemma get_web3_and_account_trace:
  "sat (get_web3_and_account h) (\<lambda>r evs. evs = [])"
  unfolding get_web3_and_account_def
  by (intro sat_intros) simp_all

lemma get_position_balances_reads:
  "sat (get_position_balances h safe cid)
     (\<lambda>r evs. only is_read evs \<and>
        (\<forall>x. r = Inr x \<longrightarrow>
           (\<exists>usdc c. to_checksum_address h USDC_ADDRESS = Inr usdc \<and> fromhex (drop 2 cid) = Inr c)))"
  unfolding get_position_balances_def
  by (intro sat_intros) simp_all

lemma is_condition_resolved_result:
  "sat (is_condition_resolved h cid)
     (\<lambda>r evs. r = Inr (resolution_result evs) \<and>
        (evs = [] \<or> (\<exists>ctf c a. evs = [Ev (PayoutDenominator ctf c) a])))"
  unfolding is_condition_resolved_def
  apply (intro sat_intros)
  apply (auto simp: resolution_result_def resolved_reply_def split: reply.splits)
  done

lemma targets_only:
  "only K evs \<Longrightarrow> (\<And>c. K c \<Longrightarrow> \<not> is_settle c) \<Longrightarrow> targets h t evs"
proof (induction evs)
  case Nil
  then show ?case by simp
next
  case (Cons ev evs)
  obtain c r where ev: "ev = Ev c r" by (cases ev)
  with Cons.prems have "\<not> is_settle c" by simp
  then have "safe_tx_of ev = None" using ev by (cases c) simp_all
  with Cons show ?case by simp
qed

lemma nonce_fresh_app:
  "nonce_fresh p (xs @ ys) \<longleftrightarrow>
     nonce_fresh p xs \<and> nonce_fresh (if xs = [] then p else Some (last xs)) ys"
  by (induction xs arbitrary: p) auto

lemma nonce_fresh_Some: "nonce_fresh None evs \<Longrightarrow> nonce_fresh (Some e) evs"
  by (rule nonce_fresh_weaken)

lemma is_read_not_settle: "is_read c \<Longrightarrow> \<not> is_settle c"
  by (cases c) simp_all

lemma reads_merge_step: "only is_read evs \<Longrightarrow> only is_merge_step evs"
  by (erule only_mono) (simp add: is_merge_step_def)

lemma settle_merge_step: "only is_settle evs \<Longrightarrow> only is_merge_step evs"
  by (erule only_mono) (simp add: is_merge_step_def)

lemma reads_nonce_fresh: "only is_read evs \<Longrightarrow> nonce_fresh p evs"
  by (erule nonce_fresh_only) simp

lemma reads_targets: "only is_read evs \<Longrightarrow> targets h t evs"
  by (erule targets_only) (rule is_read_not_settle)

lemma get_position_balances_only: "sat (get_position_balances h safe cid) (\<lambda>r evs. only is_read evs)"
  by (rule sat_weaken [OF get_position_balances_reads]) simp

lemmas sat_web3 = sat_bind [OF get_web3_and_account_trace]
lemmas sat_reads = sat_bind [OF get_position_balances_only]

lemma merge_condition_returns:
  "sat (merge_condition h cid neg) (\<lambda>r evs. \<exists>b. r = Inr b)"
  unfolding merge_condition_def
  apply (intro sat_intros sat_web3 sat_reads sat_bind [OF execute_result])
  apply (simp_all add: ex_bool_eq)
  done

lemma merge_condition_only:
  "sat (merge_condition h cid neg) (\<lambda>r evs. only is_merge_step evs)"
  unfolding merge_condition_def
  apply (intro sat_intros sat_web3 sat_reads sat_bind [OF execute_only_settle])
  apply (simp_all add: reads_merge_step settle_merge_step)
  apply (simp_all add: is_merge_step_def)
  done

lemma merge_condition_nonce_fresh:
  "sat (merge_condition h cid neg) (\<lambda>r evs. nonce_fresh None evs)"
  unfolding merge_condition_def
  apply (intro sat_intros sat_web3 sat_reads sat_bind [OF execute_nonce_fresh])
  apply (simp_all add: nonce_fresh_app reads_nonce_fresh nonce_fresh_Some)
  done

lemma merge_condition_targets:
  "sat (merge_condition h cid neg)
     (\<lambda>r evs. targets h (if neg then NEG_RISK_ADAPTER_ADDRESS
                         else CONDITIONAL_TOKENS_FRAMEWORK_ADDRESS) evs)"
  unfolding merge_condition_def
  apply (intro sat_intros sat_web3 sat_reads sat_bind [OF execute_targets])
  apply (simp_all add: reads_targets)
  done

lemma bind_assoc: "bind (bind m g) f = bind m (\<lambda>x. bind (g x) f)"
  by (rule ext) (simp add: bind_def split: prod.splits sum.splits)

lemma bind_ret: "bind (ret x) f = f x"
  by (rule ext) (simp add: bind_def ret_def split: prod.splits)

lemma sat_bind_assoc: "sat (bind m (\<lambda>x. bind (g x) f)) Q \<Longrightarrow> sat (bind (bind m g) f) Q"
  by (simp add: bind_assoc)

lemma sat_bind_ret: "sat (f x) Q \<Longrightarrow> sat (bind (ret x) f) Q"
  by (simp add: bind_ret)

lemma sat_bind_if:
  "(c \<Longrightarrow> sat (bind a f) Q) \<Longrightarrow> (\<not> c \<Longrightarrow> sat (bind b f) Q) \<Longrightarrow>
   sat (bind (if c then a else b) f) Q"
  by simp

lemmas sat_more = sat_bind_assoc sat_bind_ret sat_bind_if

lemma redeem_condition_returns:
  "sat (redeem_condition h cid neg) (\<lambda>r evs. \<exists>b. r = Inr b)"
  unfolding redeem_condition_def
  apply (intro sat_intros sat_more sat_web3 sat_reads sat_bind [OF execute_result]
      sat_bind [OF merge_condition_returns] sat_bind [OF is_condition_resolved_result])
  apply (simp_all add: ex_bool_eq)
  done

lemma is_condition_resolved_only:
  "sat (is_condition_resolved h cid) (\<lambda>r evs. only is_payout evs)"
  by (rule sat_weaken [OF is_condition_resolved_result]) auto

lemma payout_nonce_fresh: "only is_payout evs \<Longrightarrow> nonce_fresh p evs"
  by (erule nonce_fresh_only) simp

lemma payout_targets: "only is_payout evs \<Longrightarrow> targets h t evs"
  by (erule targets_only) (auto elim: is_payout.elims)

lemma nonce_fresh_append_eq:
  "nonce_fresh None ys \<Longrightarrow> nonce_fresh p (xs @ ys) = nonce_fresh p xs"
  by (auto simp: nonce_fresh_app intro: nonce_fresh_weaken)

lemma redeem_condition_nonce_fresh:
  "sat (redeem_condition h cid neg) (\<lambda>r evs. nonce_fresh None evs)"
  unfolding redeem_condition_def
  apply (intro sat_intros sat_more sat_web3 sat_reads sat_bind [OF execute_nonce_fresh]
      sat_bind [OF merge_condition_nonce_fresh] sat_bind [OF is_condition_resolved_only])
  apply (simp_all add: nonce_fresh_append_eq reads_nonce_fresh payout_nonce_fresh nonce_fresh_Some)
  done

lemma redeem_condition_targets:
  "sat (redeem_condition h cid neg)
     (\<lambda>r evs. targets h (if neg then NEG_RISK_ADAPTER_ADDRESS
                         else CONDITIONAL_TOKENS_FRAMEWORK_ADDRESS) evs)"
  unfolding redeem_condition_def
  apply (intro sat_intros sat_more sat_web3 sat_reads sat_bind [OF execute_targets]
      sat_bind [OF merge_condition_targets] sat_bind [OF is_condition_resolved_only])
  apply (simp_all add: reads_targets payout_targets)
  done

lemma split_resolution_quiet:
  "only quiet xs \<Longrightarrow>
   split_resolution (xs @ ys) =
     (case split_resolution ys of None \<Rightarrow> None | Some (pre, a, post) \<Rightarrow> Some (xs @ pre, a, post))"
  by (induction xs) (auto simp: quiet_def split: option.splits)

lemma only_quiet_not_redeem: "only quiet xs \<Longrightarrow> only (\<lambda>c. \<not> is_redeem_encode c) xs"
  by (erule only_mono) (simp add: quiet_def)

lemma redeem_guarded_quiet:
  "only quiet xs \<Longrightarrow> redeem_guarded r (xs @ ys) = redeem_guarded r ys"
  by (auto simp: redeem_guarded_def split_resolution_quiet only_quiet_not_redeem split: option.splits)

lemma redeem_guarded_quiet_only [simp]: "only quiet xs \<Longrightarrow> redeem_guarded r xs"
  using redeem_guarded_quiet [of xs r "[]"] by (simp add: redeem_guarded_def)

lemma redeem_guarded_payout:
  "redeem_guarded r (Ev (PayoutDenominator ctf c) a # post) =
     (if resolved_reply a then True else post = [] \<and> r = Inr True)"
  by (simp add: redeem_guarded_def)

lemma reads_quiet: "only is_read evs \<Longrightarrow> only quiet evs"
  by (erule only_mono) (auto simp: quiet_def elim: is_read.elims)

lemma merge_step_quiet: "only is_merge_step evs \<Longrightarrow> only quiet evs"
  apply (erule only_mono)
  subgoal for c by (cases c) (auto simp: quiet_def is_merge_step_def)
  done

lemma resolution_result_Cons:
  "resolution_result [Ev (PayoutDenominator ctf c) a] = resolved_reply a"
  "resolution_result [] = False"
  by (simp_all add: resolution_result_def)

lemma redeem_condition_guarded:
  "sat (redeem_condition h cid neg) (\<lambda>r evs. redeem_guarded r evs)"
  unfolding redeem_condition_def
  apply (intro sat_intros sat_more sat_web3 sat_reads sat_bind [OF execute_only_settle]
      sat_bind [OF merge_condition_only] sat_bind [OF is_condition_resolved_result])
  apply (simp_all add: redeem_guarded_quiet reads_quiet merge_step_quiet)
  apply (auto simp: redeem_guarded_payout resolution_result_Cons)
  done

lemma get_redeemable_positions_trace:
  "sat (get_redeemable_positions h market_slug) (\<lambda>r evs. (\<exists>ps. r = Inr ps) \<and> only is_http evs)"
  unfolding get_redeemable_positions_def Let_def
  apply (rule sat_try_ret)
  apply (rule sat_bind [where P = "\<lambda>r evs. (\<exists>ps. r = Inr ps) \<and> only is_http evs"])
  subgoal by (intro sat_intros) simp_all
  subgoal by simp
  apply (rule sat_bind [where P = "\<lambda>r evs. (\<exists>ps. r = Inr ps) \<and> only is_http evs"])
  subgoal by (intro sat_intros) simp_all
  subgoal by simp
  subgoal by (intro sat_intros) simp_all
  done

lemma redeem_loop_trace:
  "sat (redeem_loop h cids n)
     (\<lambda>r evs. (\<exists>k. r = Inr k) \<and> nonce_fresh None evs \<and>
        targets h CONDITIONAL_TOKENS_FRAMEWORK_ADDRESS evs)"
proof (induction cids arbitrary: n)
  case Nil
  show ?case by (simp add: sat_ret)
next
  case (Cons c cs)
  have step: "sat (redeem_condition h c False)
     (\<lambda>r evs. (\<exists>b. r = Inr b) \<and> nonce_fresh None evs \<and>
        targets h CONDITIONAL_TOKENS_FRAMEWORK_ADDRESS evs)"
    using redeem_condition_targets [of h c False]
    by (intro sat_conj redeem_condition_returns redeem_condition_nonce_fresh) simp
  show ?case
    unfolding redeem_loop.simps
    apply (rule sat_bind [OF step])
     apply simp
    apply (rule sat_weaken [OF Cons.IH])
    apply (simp add: nonce_fresh_append_eq)
    done
qed

lemma http_nonce_fresh: "only is_http evs \<Longrightarrow> nonce_fresh p evs"
  by (erule nonce_fresh_only) simp

lemma http_targets: "only is_http evs \<Longrightarrow> targets h t evs"
  by (erule targets_only) (auto elim: is_http.elims)

lemma redeem_market_positions_trace:
  "sat (redeem_market_positions h market_slug)
     (\<lambda>r evs. (\<exists>k. r = Inr k) \<and> nonce_fresh None evs \<and>
        targets h CONDITIONAL_TOKENS_FRAMEWORK_ADDRESS evs)"
  unfolding redeem_market_positions_def
  apply (intro sat_intros sat_bind [OF get_redeemable_positions_trace] sat_bind [OF redeem_loop_trace])
  apply (simp_all add: nonce_fresh_append_eq http_nonce_fresh http_targets)
  done

lemma redeem_all_positions_trace:
  "sat (redeem_all_positions h)
     (\<lambda>r evs. (\<exists>k. r = Inr k) \<and> nonce_fresh None evs \<and>
        targets h CONDITIONAL_TOKENS_FRAMEWORK_ADDRESS evs)"
  unfolding redeem_all_positions_def
  apply (intro sat_intros sat_bind [OF get_redeemable_positions_trace] sat_bind [OF redeem_loop_trace])
  apply (simp_all add: nonce_fresh_append_eq http_nonce_fresh http_targets)
  done

subsection \<open>The claims on the transaction executor\<close>

lemma sat_trace: "sat m (\<lambda>r evs. P evs) \<Longrightarrow> P (trace_of m s)"
  by (simp add: sat_def trace_of_def)

lemma sat_result_trace: "sat m Q \<Longrightarrow> Q (result_of m s) (trace_of m s)"
  by (simp add: sat_def trace_of_def result_of_def)

lemma receipt_ok_simps:
  "receipt_ok [] = False"
  "receipt_ok (evs @ [Ev c (Inl e)]) = False"
  "receipt_ok (evs @ [Ev (WaitForTransactionReceipt hs t) (Inr (R_receipt rc))]) = (status rc = Some 1)"
  by (simp_all add: receipt_ok_def split: call.splits)

text \<open>
  Claim C5. From every world and for every behaviour of the node and of the local library,
  \<open>_execute_safe_transaction\<close> returns a Boolean and raises nothing; the Boolean is
  \<open>True\<close> exactly when the last call it made is the wait for the receipt and that call
  was answered by a receipt whose \<open>status\<close> is 1. A run that made no call, a run whose last
  call raised (a revert reported by the node, the timeout of the wait, any RPC error) and a
  receipt with another status, or with none, all give \<open>False\<close>.
\<close>

theorem execute_safe_transaction_reports_receipt_status:
  "result_of (execute_safe_transaction h account safe_address to_address data) s =
     Inr (receipt_ok (trace_of (execute_safe_transaction h account safe_address to_address data) s)) \<and>
   receipt_ok [] = False \<and>
   receipt_ok (evs @ [Ev c (Inl e)]) = False \<and>
   receipt_ok (evs @ [Ev (WaitForTransactionReceipt hs t) (Inr (R_receipt rc))]) =
     (status rc = Some 1)"
  using sat_result_trace [OF execute_result, of h account safe_address to_address data s]
  by (simp add: receipt_ok_simps)

text \<open>
  Claim C3. In every trace of the executor, of \<open>merge_condition\<close>, of
  \<open>redeem_condition\<close> and of the two batch drivers, each computation of a Safe
  transaction hash is immediately preceded by a successful read of the nonce of the same
  wallet, and the nonce it uses is the value that read returned: every settlement action
  reads its nonce afresh, and none is carried from one invocation to the next.
\<close>

theorem wallet_nonce_read_fresh:
  "nonce_fresh None (trace_of (execute_safe_transaction h account safe_address to_address data) s) \<and>
   nonce_fresh None (trace_of (merge_condition h condition_id neg_risk) s) \<and>
   nonce_fresh None (trace_of (redeem_condition h condition_id neg_risk) s) \<and>
   nonce_fresh None (trace_of (redeem_market_positions h market_slug) s) \<and>
   nonce_fresh None (trace_of (redeem_all_positions h) s)"
proof (intro conjI)
  show "nonce_fresh None
      (trace_of (execute_safe_transaction h account safe_address to_address data) s)"
    by (rule sat_trace [OF execute_nonce_fresh])
  show "nonce_fresh None (trace_of (merge_condition h condition_id neg_risk) s)"
    by (rule sat_trace [OF merge_condition_nonce_fresh])
  show "nonce_fresh None (trace_of (redeem_condition h condition_id neg_risk) s)"
    by (rule sat_trace [OF redeem_condition_nonce_fresh])
  show "nonce_fresh None (trace_of (redeem_market_positions h market_slug) s)"
    using sat_result_trace [OF redeem_market_positions_trace, of h market_slug s] by simp
  show "nonce_fresh None (trace_of (redeem_all_positions h) s)"
    using sat_result_trace [OF redeem_all_positions_trace, of h s] by simp
qed

text \<open>
  On the concrete chain, with balances 100 and 40 and a resolved condition: the merge is
  hashed with the nonce 5 and the redeem that follows with the nonce 6.
\<close>

lemma nonce_demo:
  "hash_nonces (trace_of (redeem_condition (demo_host demo_key demo_proxy) demo_cid False)
     (demo_chain 100 40 1)) = [5, 6]"
  by code_simp

lemma submit_demo:
  "result_of (merge_condition (demo_host demo_key demo_proxy) demo_cid False) (demo_chain 100 40 0) = Inr True"
  by code_simp

subsection \<open>The target of the batch drivers\<close>

lemma targets_safe_txs:
  "targets h t evs \<longleftrightarrow> (\<forall>stx \<in> set (safe_txs evs). to_checksum_address h t = Inr (tx_to stx))"
  by (induction evs) (auto simp: safe_txs_def split: option.splits)

text \<open>
  Claim C10. The loop of both batch drivers calls \<open>redeem_condition\<close> with
  \<open>neg_risk = False\<close> for every condition. Hence every Safe transaction that
  \<open>redeem_market_positions\<close> or \<open>redeem_all_positions\<close> hashes or builds, for a merge
  or for a redeem, goes to the checksum form of the conditional-tokens framework address;
  the two address constants differ, and on a host whose checksum function keeps them apart
  no such transaction goes to the negative-risk adapter. (Called with \<open>neg_risk = True\<close>,
  \<open>redeem_condition\<close> does target the adapter.)
\<close>

theorem batch_targets_conditional_tokens:
  "targets h CONDITIONAL_TOKENS_FRAMEWORK_ADDRESS (trace_of (redeem_market_positions h market_slug) s) \<and>
   targets h CONDITIONAL_TOKENS_FRAMEWORK_ADDRESS (trace_of (redeem_all_positions h) s) \<and>
   targets h CONDITIONAL_TOKENS_FRAMEWORK_ADDRESS (trace_of (redeem_loop h cids n) s) \<and>
   targets h CONDITIONAL_TOKENS_FRAMEWORK_ADDRESS (trace_of (redeem_condition h cid False) s) \<and>
   targets h NEG_RISK_ADAPTER_ADDRESS (trace_of (redeem_condition h cid True) s) \<and>
   CONDITIONAL_TOKENS_FRAMEWORK_ADDRESS \<noteq> NEG_RISK_ADAPTER_ADDRESS \<and>
   (to_checksum_address h NEG_RISK_ADAPTER_ADDRESS \<noteq>
      to_checksum_address h CONDITIONAL_TOKENS_FRAMEWORK_ADDRESS \<longrightarrow>
    (\<forall>stx \<in> set (safe_txs (trace_of (redeem_market_positions h market_slug) s) @
                   safe_txs (trace_of (redeem_all_positions h) s)).
       to_checksum_address h NEG_RISK_ADAPTER_ADDRESS \<noteq> Inr (tx_to stx)))"
proof -
  have m: "targets h CONDITIONAL_TOKENS_FRAMEWORK_ADDRESS
      (trace_of (redeem_market_positions h market_slug) s)"
    using sat_result_trace [OF redeem_market_positions_trace, of h market_slug s] by simp
  have a: "targets h CONDITIONAL_TOKENS_FRAMEWORK_ADDRESS (trace_of (redeem_all_positions h) s)"
    using sat_result_trace [OF redeem_all_positions_trace, of h s] by simp
  have l: "targets h CONDITIONAL_TOKENS_FRAMEWORK_ADDRESS (trace_of (redeem_loop h cids n) s)"
    using sat_result_trace [OF redeem_loop_trace, of h cids n s] by simp
  have f: "targets h CONDITIONAL_TOKENS_FRAMEWORK_ADDRESS (trace_of (redeem_condition h cid False) s)"
    using sat_trace [OF redeem_condition_targets [of h cid False]] by simp
  have t: "targets h NEG_RISK_ADAPTER_ADDRESS (trace_of (redeem_condition h cid True) s)"
    using sat_trace [OF redeem_condition_targets [of h cid True]] by simp
  have c: "CONDITIONAL_TOKENS_FRAMEWORK_ADDRESS \<noteq> NEG_RISK_ADAPTER_ADDRESS"
    by (simp add: CONDITIONAL_TOKENS_FRAMEWORK_ADDRESS_def NEG_RISK_ADAPTER_ADDRESS_def)
  show ?thesis
    using m a l f t c by (auto simp: targets_safe_txs)
qed

text \<open>
  On the concrete chain with two listed conditions and balances 100 and 40, resolved: the
  batch hashes and builds a merge and a redeem, all four for the framework address.
\<close>

lemma batch_demo:
  "map tx_to (safe_txs (trace_of (redeem_market_positions (demo_host demo_key demo_proxy)
       ''btc-updown-15m-1700000000'') (demo_chain_listed 100 40 1))) =
     replicate 4 CONDITIONAL_TOKENS_FRAMEWORK_ADDRESS"
  by code_simp

lemma batch_demo_result:
  "result_of (redeem_market_positions (demo_host demo_key demo_proxy)
       ''btc-updown-15m-1700000000'') (demo_chain_listed 100 40 1) = Inr (2, 2)"
  by code_simp

theorem batch_targets_conditional_tokens_witness:
  "to_checksum_address (demo_host demo_key demo_proxy) NEG_RISK_ADAPTER_ADDRESS \<noteq>
     to_checksum_address (demo_host demo_key demo_proxy) CONDITIONAL_TOKENS_FRAMEWORK_ADDRESS \<and>
   map tx_to (safe_txs (trace_of (redeem_market_positions (demo_host demo_key demo_proxy)
       ''btc-updown-15m-1700000000'') (demo_chain_listed 100 40 1))) =
     replicate 4 CONDITIONAL_TOKENS_FRAMEWORK_ADDRESS \<and>
   list_all (\<lambda>stx. to_checksum_address (demo_host demo_key demo_proxy) NEG_RISK_ADAPTER_ADDRESS \<noteq>
                Inr (tx_to stx))
     (safe_txs (trace_of (redeem_market_positions (demo_host demo_key demo_proxy)
        ''btc-updown-15m-1700000000'') (demo_chain_listed 100 40 1)))"
proof -
  let ?H = "demo_host demo_key demo_proxy"
  let ?T = "trace_of (redeem_market_positions ?H ''btc-updown-15m-1700000000'')
      (demo_chain_listed 100 40 1)"
  have d: "to_checksum_address ?H NEG_RISK_ADAPTER_ADDRESS \<noteq>
      to_checksum_address ?H CONDITIONAL_TOKENS_FRAMEWORK_ADDRESS"
    by (simp add: demo_host_def NEG_RISK_ADAPTER_ADDRESS_def
        CONDITIONAL_TOKENS_FRAMEWORK_ADDRESS_def)
  have "\<forall>stx \<in> set (safe_txs ?T).
      to_checksum_address ?H NEG_RISK_ADAPTER_ADDRESS \<noteq> Inr (tx_to stx)"
    using batch_targets_conditional_tokens [where h = ?H
        and market_slug = "''btc-updown-15m-1700000000''" and s = "demo_chain_listed 100 40 1"] d
    by simp
  then show ?thesis
    using d batch_demo by (simp add: list_all_iff)
qed

subsection \<open>Runs from a given world\<close>

lemma outcome_eq: "m s = (r, evs, s') \<Longrightarrow> outcome m s Q = Q r evs s'"
  by (simp add: outcome_def)

lemma outcome_bind:
  assumes "m s = (Inr x, evs, s1)"
    and "outcome (f x) s1 (\<lambda>r evs' s2. Q r (evs @ evs') s2)"
  shows "outcome (bind m f) s Q"
  using assms by (cases "f x s1") (simp add: outcome_def bind_def)

lemma outcome_try_ret:
  assumes "outcome m s (\<lambda>r evs s'. Q (case r of Inl e \<Rightarrow> Inr v | Inr x \<Rightarrow> Inr x) evs s')"
  shows "outcome (try_except m (\<lambda>e. ret v)) s Q"
  using assms
  by (cases "m s"; cases "fst (m s)") (auto simp: outcome_def try_except_def ret_def)

lemma outcome_sat: "sat m (\<lambda>r evs. \<forall>s'. Q r evs s') \<Longrightarrow> outcome m s Q"
  by (simp add: sat_def outcome_def)

lemma outcome_ret: "Q (Inr x) [] s \<Longrightarrow> outcome (ret x) s Q"
  by (simp add: outcome_def ret_def)

lemma get_web3_and_account_ok:
  assumes "on_env (from_key h) (env_PRIVATE_KEY h) = Inr account"
    and "on_env (to_checksum_address h) (env_POLYMARKET_PROXY_ADDRESS h) = Inr safe"
  shows "get_web3_and_account h s = (Inr (account, safe), [], s)"
  using assms by (simp add: get_web3_and_account_def bind_def lift_def ret_def)

lemma zero_bytes32_hex: "fromhex (drop 2 ZERO_BYTES32_HEX) = Inr (zero_bytes 32)"
  by code_simp

lemma reads_nothing_else:
  "only is_read evs \<Longrightarrow> only (\<lambda>c. \<not> is_write c \<and> \<not> is_encode c \<and> \<not> is_settle c) evs"
  apply (erule only_mono)
  subgoal for c by (cases c) simp_all
  done

lemma redeem_condition_zero:
  assumes w: "get_web3_and_account h s = (Inr (account, safe), [], s)"
    and g: "get_position_balances h safe cid s = (Inr (0, 0), evs, s')"
  shows "redeem_condition h cid neg s = (Inr True, evs, s')"
proof -
  have "outcome (redeem_condition h cid neg) s (\<lambda>r tr s2. r = Inr True \<and> tr = evs \<and> s2 = s')"
    unfolding redeem_condition_def
    apply (rule outcome_try_ret)
    apply (rule outcome_bind [where m = "get_web3_and_account h" and s = s, OF w])
    apply (simp only: prod.case)
    apply (rule outcome_bind [where m = "get_position_balances h safe cid" and s = s, OF g])
    apply (simp only: prod.case simp_thms if_True)
    apply (rule outcome_ret)
    apply simp
    done
  then show ?thesis
    by (cases "redeem_condition h cid neg s") (simp add: outcome_def)
qed

lemma merge_condition_zero:
  assumes w: "get_web3_and_account h s = (Inr (account, safe), [], s)"
    and g: "get_position_balances h safe cid s = (Inr (balance_yes, balance_no), evs, s')"
    and z: "min balance_yes balance_no = 0"
  shows "merge_condition h cid neg s = (Inr True, evs, s')"
proof -
  have "outcome (merge_condition h cid neg) s (\<lambda>r tr s2. r = Inr True \<and> tr = evs \<and> s2 = s')"
    unfolding merge_condition_def
    apply (rule outcome_try_ret)
    apply (rule outcome_bind [where m = "get_web3_and_account h" and s = s, OF w])
    apply (simp only: prod.case)
    apply (rule outcome_bind [where m = "get_position_balances h safe cid" and s = s, OF g])
    apply (simp only: prod.case Let_def z simp_thms if_True)
    apply (rule outcome_ret)
    apply simp
    done
  then show ?thesis
    by (cases "merge_condition h cid neg s") (simp add: outcome_def)
qed

lemma execute_trace:
  "sat (execute_safe_transaction h acct safe to_address data)
     (\<lambda>r evs. only is_settle evs \<and> targets h to_address evs \<and> carries data evs)"
  by (intro sat_conj execute_only_settle execute_targets)

lemma merge_condition_nonzero:
  assumes w: "get_web3_and_account h s = (Inr (account, safe), [], s)"
    and g: "get_position_balances h safe cid s = (Inr (balance_yes, balance_no), evs, s')"
    and z: "min balance_yes balance_no \<noteq> 0"
    and u: "to_checksum_address h USDC_ADDRESS = Inr usdc"
    and c: "fromhex (drop 2 cid) = Inr c"
  shows "\<exists>a rest. trace_of (merge_condition h cid neg) s =
            evs @ Ev (EncodeTransactionData
                       (MergePositions usdc (zero_bytes 32) c [1, 2]
                          (min balance_yes balance_no))) a # rest \<and>
          only is_settle rest \<and> merge_data_ok a rest \<and>
          targets h (if neg then NEG_RISK_ADAPTER_ADDRESS
                     else CONDITIONAL_TOKENS_FRAMEWORK_ADDRESS) rest"
proof -
  have "outcome (merge_condition h cid neg) s (\<lambda>r tr s2.
          \<exists>a rest. tr =
            evs @ Ev (EncodeTransactionData
                       (MergePositions usdc (zero_bytes 32) c [1, 2]
                          (min balance_yes balance_no))) a # rest \<and>
          only is_settle rest \<and> merge_data_ok a rest \<and>
          targets h (if neg then NEG_RISK_ADAPTER_ADDRESS
                     else CONDITIONAL_TOKENS_FRAMEWORK_ADDRESS) rest)"
    unfolding merge_condition_def
    apply (rule outcome_try_ret)
    apply (rule outcome_bind [where m = "get_web3_and_account h" and s = s, OF w])
    apply (simp only: prod.case)
    apply (rule outcome_bind [where m = "get_position_balances h safe cid" and s = s, OF g])
    apply (simp only: prod.case)
    apply (rule outcome_sat)
    apply (intro sat_intros sat_bind [OF execute_trace])
    using z u c apply (simp_all add: zero_bytes32_hex merge_data_ok_def split: reply.splits)
    done
  then show ?thesis
    by (simp add: outcome_def trace_of_def)
qed

subsection \<open>Zero balances\<close>

text \<open>
  Claim C6. When the configuration is present and the two balances of the condition read
  at entry are both 0, \<open>redeem_condition\<close> returns \<open>True\<close>; its trace is the trace of
  that one balance read and the world is the one the read left: it encodes no calldata,
  makes no call of the transaction executor and sends no transaction. Likewise
  \<open>merge_condition\<close> when the smaller of the two balances it reads is 0.
\<close>

theorem zero_balances_no_chain_write:
  "(on_env (from_key h) (env_PRIVATE_KEY h) = Inr account \<and>
    on_env (to_checksum_address h) (env_POLYMARKET_PROXY_ADDRESS h) = Inr safe \<and>
    get_position_balances h safe cid s = (Inr (0, 0), evs, s') \<longrightarrow>
      redeem_condition h cid neg s = (Inr True, evs, s') \<and>
      only (\<lambda>c. \<not> is_write c \<and> \<not> is_encode c \<and> \<not> is_settle c) evs) \<and>
   (on_env (from_key h) (env_PRIVATE_KEY h) = Inr account \<and>
    on_env (to_checksum_address h) (env_POLYMARKET_PROXY_ADDRESS h) = Inr safe \<and>
    get_position_balances h safe cid s = (Inr (balance_yes, balance_no), evs, s') \<and>
    min balance_yes balance_no = 0 \<longrightarrow>
      merge_condition h cid neg s = (Inr True, evs, s') \<and>
      only (\<lambda>c. \<not> is_write c \<and> \<not> is_encode c \<and> \<not> is_settle c) evs)"
proof (intro conjI impI)
  assume a: "on_env (from_key h) (env_PRIVATE_KEY h) = Inr account \<and>
    on_env (to_checksum_address h) (env_POLYMARKET_PROXY_ADDRESS h) = Inr safe \<and>
    get_position_balances h safe cid s = (Inr (0, 0), evs, s')"
  then have w: "get_web3_and_account h s = (Inr (account, safe), [], s)"
    by (simp add: get_web3_and_account_ok)
  from a have g: "get_position_balances h safe cid s = (Inr (0, 0), evs, s')" by simp
  show "redeem_condition h cid neg s = (Inr True, evs, s')"
    using w g by (rule redeem_condition_zero)
  show "only (\<lambda>c. \<not> is_write c \<and> \<not> is_encode c \<and> \<not> is_settle c) evs"
    using satD [OF get_position_balances_only g] by (rule reads_nothing_else)
next
  assume a: "on_env (from_key h) (env_PRIVATE_KEY h) = Inr account \<and>
    on_env (to_checksum_address h) (env_POLYMARKET_PROXY_ADDRESS h) = Inr safe \<and>
    get_position_balances h safe cid s = (Inr (balance_yes, balance_no), evs, s') \<and>
    min balance_yes balance_no = 0"
  then have w: "get_web3_and_account h s = (Inr (account, safe), [], s)"
    by (simp add: get_web3_and_account_ok)
  from a have g: "get_position_balances h safe cid s = (Inr (balance_yes, balance_no), evs, s')"
    and z: "min balance_yes balance_no = 0" by simp_all
  show "merge_condition h cid neg s = (Inr True, evs, s')"
    using w g z by (rule merge_condition_zero)
  show "only (\<lambda>c. \<not> is_write c \<and> \<not> is_encode c \<and> \<not> is_settle c) evs"
    using satD [OF get_position_balances_only g] by (rule reads_nothing_else)
qed

lemma demo_config:
  "on_env (from_key (demo_host demo_key demo_proxy)) (env_PRIVATE_KEY (demo_host demo_key demo_proxy))
     = Inr demo_account"
  "on_env (to_checksum_address (demo_host demo_key demo_proxy))
     (env_POLYMARKET_PROXY_ADDRESS (demo_host demo_key demo_proxy)) = Inr demo_safe"
  by (simp_all add: demo_host_def demo_key_def demo_proxy_def demo_account_def demo_safe_def on_env_def)

lemma demo_reads:
  "get_position_balances (demo_host demo_key demo_proxy) demo_safe demo_cid (demo_chain yes no d) =
     (Inr (yes, no),
      trace_of (get_position_balances (demo_host demo_key demo_proxy) demo_safe demo_cid)
        (demo_chain yes no d),
      demo_chain yes no d)"
  by (simp add: get_position_balances_def trace_of_def bind_def lift_def ret_def call_int_def call_bytes_def
        do_call_def demo_host_def demo_outside_def demo_chain_def demo_cid_def demo_safe_def
        CONDITIONAL_TOKENS_FRAMEWORK_ADDRESS_def USDC_ADDRESS_def hex_digit_def is_space_def Let_def
        from_bytes_def)

text \<open>
  On the concrete chain: balances (0, 0) for \<open>redeem_condition\<close>, (60, 0) for
  \<open>merge_condition\<close>; the trace is the six reads of \<open>_get_position_balances\<close>.
\<close>

theorem zero_balances_no_chain_write_witness:
  "redeem_condition (demo_host demo_key demo_proxy) demo_cid False (demo_chain 0 0 1) =
     (Inr True,
      trace_of (get_position_balances (demo_host demo_key demo_proxy) demo_safe demo_cid)
        (demo_chain 0 0 1),
      demo_chain 0 0 1) \<and>
   merge_condition (demo_host demo_key demo_proxy) demo_cid False (demo_chain 60 0 1) =
     (Inr True,
      trace_of (get_position_balances (demo_host demo_key demo_proxy) demo_safe demo_cid)
        (demo_chain 60 0 1),
      demo_chain 60 0 1) \<and>
   length (trace_of (get_position_balances (demo_host demo_key demo_proxy) demo_safe demo_cid)
        (demo_chain 0 0 1)) = 6"
proof -
  let ?H = "demo_host demo_key demo_proxy"
  have l: "length (trace_of (get_position_balances ?H demo_safe demo_cid) (demo_chain 0 0 1)) = 6"
    by code_simp
  have m: "min (60::int) 0 = 0" by simp
  show ?thesis
    using zero_balances_no_chain_write [where h = ?H and account = demo_account and safe = demo_safe
        and cid = demo_cid and s = "demo_chain 0 0 1" and s' = "demo_chain 0 0 1" and neg = False
        and evs = "trace_of (get_position_balances ?H demo_safe demo_cid) (demo_chain 0 0 1)"
        and balance_yes = 0 and balance_no = 0]
      zero_balances_no_chain_write [where h = ?H and account = demo_account and safe = demo_safe
        and cid = demo_cid and s = "demo_chain 60 0 1" and s' = "demo_chain 60 0 1" and neg = False
        and evs = "trace_of (get_position_balances ?H demo_safe demo_cid) (demo_chain 60 0 1)"
        and balance_yes = 60 and balance_no = 0]
      demo_config demo_reads [of 0 0 1] demo_reads [of 60 0 1] l m
    by simp
qed

subsection \<open>The amount of a merge\<close>

text \<open>
  Claim C1. Let the configuration be present and let \<open>merge_condition\<close> read the
  balances \<open>(balance_yes, balance_no)\<close> (any integers, so in particular any non-negative
  ones). When their minimum is 0 it returns \<open>True\<close> and its trace is that of the balance
  read alone: nothing is encoded, built or submitted. Otherwise the first call after the
  read encodes \<open>mergePositions\<close> with the checksum form of the collateral token
  \<open>USDC_ADDRESS\<close>, 32 zero bytes as parent collection, the bytes of the condition id,
  the partition \<open>[1, 2]\<close> and the amount \<open>min balance_yes balance_no\<close>; every call
  after it belongs to the transaction executor, its Safe transactions carry the bytes the
  encoder returned and go to the address selected by \<open>neg_risk\<close>.
\<close>

theorem merge_condition_encodes_minimum:
  "on_env (from_key h) (env_PRIVATE_KEY h) = Inr account \<and>
   on_env (to_checksum_address h) (env_POLYMARKET_PROXY_ADDRESS h) = Inr safe \<and>
   get_position_balances h safe cid s = (Inr (balance_yes, balance_no), evs, s') \<longrightarrow>
     (min balance_yes balance_no = 0 \<longrightarrow>
        merge_condition h cid neg s = (Inr True, evs, s') \<and>
        only (\<lambda>c. \<not> is_write c \<and> \<not> is_encode c \<and> \<not> is_settle c) evs) \<and>
     (min balance_yes balance_no \<noteq> 0 \<longrightarrow>
        (\<exists>usdc c a rest.
           to_checksum_address h USDC_ADDRESS = Inr usdc \<and>
           fromhex (drop 2 cid) = Inr c \<and>
           trace_of (merge_condition h cid neg) s =
             evs @ Ev (EncodeTransactionData
                        (MergePositions usdc (zero_bytes 32) c [1, 2]
                           (min balance_yes balance_no))) a # rest \<and>
           only is_settle rest \<and> merge_data_ok a rest \<and>
           targets h (if neg then NEG_RISK_ADAPTER_ADDRESS
                      else CONDITIONAL_TOKENS_FRAMEWORK_ADDRESS) rest))"
proof (intro impI)
  assume a: "on_env (from_key h) (env_PRIVATE_KEY h) = Inr account \<and>
   on_env (to_checksum_address h) (env_POLYMARKET_PROXY_ADDRESS h) = Inr safe \<and>
   get_position_balances h safe cid s = (Inr (balance_yes, balance_no), evs, s')"
  then have w: "get_web3_and_account h s = (Inr (account, safe), [], s)"
    by (simp add: get_web3_and_account_ok)
  from a have g: "get_position_balances h safe cid s = (Inr (balance_yes, balance_no), evs, s')"
    by simp
  from satD [OF get_position_balances_reads g]
  obtain usdc c where u: "to_checksum_address h USDC_ADDRESS = Inr usdc"
    and c: "fromhex (drop 2 cid) = Inr c" and r: "only is_read evs"
    by auto
  show "(min balance_yes balance_no = 0 \<longrightarrow>
        merge_condition h cid neg s = (Inr True, evs, s') \<and>
        only (\<lambda>c. \<not> is_write c \<and> \<not> is_encode c \<and> \<not> is_settle c) evs) \<and>
     (min balance_yes balance_no \<noteq> 0 \<longrightarrow>
        (\<exists>usdc c a rest.
           to_checksum_address h USDC_ADDRESS = Inr usdc \<and>
           fromhex (drop 2 cid) = Inr c \<and>
           trace_of (merge_condition h cid neg) s =
             evs @ Ev (EncodeTransactionData
                        (MergePositions usdc (zero_bytes 32) c [1, 2]
                           (min balance_yes balance_no))) a # rest \<and>
           only is_settle rest \<and> merge_data_ok a rest \<and>
           targets h (if neg then NEG_RISK_ADAPTER_ADDRESS
                      else CONDITIONAL_TOKENS_FRAMEWORK_ADDRESS) rest))"
  proof (intro conjI impI)
    assume z: "min balance_yes balance_no = 0"
    show "merge_condition h cid neg s = (Inr True, evs, s')"
      using w g z by (rule merge_condition_zero)
    show "only (\<lambda>c. \<not> is_write c \<and> \<not> is_encode c \<and> \<not> is_settle c) evs"
      using r by (rule reads_nothing_else)
  next
    assume z: "min balance_yes balance_no \<noteq> 0"
    from merge_condition_nonzero [OF w g z u c, of neg] u c
    show "\<exists>usdc c a rest.
           to_checksum_address h USDC_ADDRESS = Inr usdc \<and>
           fromhex (drop 2 cid) = Inr c \<and>
           trace_of (merge_condition h cid neg) s =
             evs @ Ev (EncodeTransactionData
                        (MergePositions usdc (zero_bytes 32) c [1, 2]
                           (min balance_yes balance_no))) a # rest \<and>
           only is_settle rest \<and> merge_data_ok a rest \<and>
           targets h (if neg then NEG_RISK_ADAPTER_ADDRESS
                      else CONDITIONAL_TOKENS_FRAMEWORK_ADDRESS) rest"
      by blast
  qed
qed

lemma demo_lib:
  "to_checksum_address (demo_host demo_key demo_proxy) USDC_ADDRESS = Inr USDC_ADDRESS"
  "to_checksum_address (demo_host demo_key demo_proxy) CONDITIONAL_TOKENS_FRAMEWORK_ADDRESS =
     Inr CONDITIONAL_TOKENS_FRAMEWORK_ADDRESS"
  "fromhex (drop 2 demo_cid) = Inr [192]"
  by (simp_all add: demo_host_def USDC_ADDRESS_def CONDITIONAL_TOKENS_FRAMEWORK_ADDRESS_def
        demo_cid_def hex_digit_def is_space_def)

text \<open>
  Scenario A on the concrete chain, balances 100,000,000 and 40,000,000: the merge is
  encoded with the amount 40,000,000; with balances (60,000,000, 0) nothing is encoded.
\<close>

theorem merge_condition_encodes_minimum_witness:
  "(\<exists>a rest.
      trace_of (merge_condition (demo_host demo_key demo_proxy) demo_cid False)
          (demo_chain 100000000 40000000 0) =
        trace_of (get_position_balances (demo_host demo_key demo_proxy) demo_safe demo_cid)
          (demo_chain 100000000 40000000 0) @
        Ev (EncodeTransactionData
              (MergePositions USDC_ADDRESS (zero_bytes 32) [192] [1, 2] 40000000)) a # rest \<and>
      targets (demo_host demo_key demo_proxy) CONDITIONAL_TOKENS_FRAMEWORK_ADDRESS rest) \<and>
   merge_condition (demo_host demo_key demo_proxy) demo_cid False (demo_chain 60000000 0 0) =
     (Inr True,
      trace_of (get_position_balances (demo_host demo_key demo_proxy) demo_safe demo_cid)
        (demo_chain 60000000 0 0),
      demo_chain 60000000 0 0)"
proof -
  let ?H = "demo_host demo_key demo_proxy"
  have m: "min (100000000::int) 40000000 = 40000000" "min (60000000::int) 0 = 0" by simp_all
  have 1: "\<exists>a rest.
      trace_of (merge_condition ?H demo_cid False) (demo_chain 100000000 40000000 0) =
        trace_of (get_position_balances ?H demo_safe demo_cid) (demo_chain 100000000 40000000 0) @
        Ev (EncodeTransactionData
              (MergePositions USDC_ADDRESS (zero_bytes 32) [192] [1, 2] 40000000)) a # rest \<and>
      targets ?H CONDITIONAL_TOKENS_FRAMEWORK_ADDRESS rest"
    using merge_condition_encodes_minimum [where h = ?H and account = demo_account
        and safe = demo_safe and cid = demo_cid and s = "demo_chain 100000000 40000000 0"
        and s' = "demo_chain 100000000 40000000 0" and neg = False
        and evs = "trace_of (get_position_balances ?H demo_safe demo_cid)
                     (demo_chain 100000000 40000000 0)"
        and balance_yes = 100000000 and balance_no = 40000000]
      demo_config demo_reads [of 100000000 40000000 0] demo_lib m
    by auto
  have 2: "merge_condition ?H demo_cid False (demo_chain 60000000 0 0) =
     (Inr True, trace_of (get_position_balances ?H demo_safe demo_cid) (demo_chain 60000000 0 0),
      demo_chain 60000000 0 0)"
    using merge_condition_encodes_minimum [where h = ?H and account = demo_account
        and safe = demo_safe and cid = demo_cid and s = "demo_chain 60000000 0 0"
        and s' = "demo_chain 60000000 0 0" and neg = False
        and evs = "trace_of (get_position_balances ?H demo_safe demo_cid) (demo_chain 60000000 0 0)"
        and balance_yes = 60000000 and balance_no = 0]
      demo_config demo_reads [of 60000000 0 0] m
    by simp
  show ?thesis using 1 2 by simp
qed

text \<open>After the merge of scenario A the balances are (60,000,000, 0).\<close>

lemma scenario_A:
  "snd (snd (merge_condition (demo_host demo_key demo_proxy) demo_cid False
       (demo_chain 100000000 40000000 0))) =
     (demo_chain 60000000 0 0)\<lparr>c_nonce := 6, c_status := 1\<rparr>"
  by code_simp

subsection \<open>Unresolved markets\<close>

lemma is_condition_resolved_raises:
  assumes "to_checksum_address h CONDITIONAL_TOKENS_FRAMEWORK_ADDRESS = Inr ctf"
    and "fromhex (drop 2 cid) = Inr c"
    and "outside h s (PayoutDenominator ctf c) = (Inl e, s')"
  shows "is_condition_resolved h cid s = (Inr False, [Ev (PayoutDenominator ctf c) (Inl e)], s')"
  using assms
  by (simp add: is_condition_resolved_def try_except_def bind_def lift_def call_int_def
        do_call_def ret_def)

text \<open>
  Claim C2. In every run of \<open>redeem_condition\<close>, whatever the balances: no
  \<open>redeemPositions\<close> is encoded before the payout denominator has been read, or without
  reading it; and when that read does not answer a positive integer (so that the
  resolution check reports unresolved), it is the last call of the run (nothing is
  encoded, hashed, built or sent after it) and the result is \<open>True\<close>. The resolution
  check returns \<open>True\<close> only on a trace that is a single read answered by a positive
  integer; it returns \<open>False\<close> when it made no call and when the read raised.
\<close>

theorem unresolved_market_never_redeemed:
  "redeem_guarded (result_of (redeem_condition h cid neg) s)
     (trace_of (redeem_condition h cid neg) s) \<and>
   result_of (is_condition_resolved h cid) s =
     Inr (resolution_result (trace_of (is_condition_resolved h cid) s)) \<and>
   resolution_result [] = False \<and>
   resolution_result [Ev (PayoutDenominator ctf c) (Inl e)] = False \<and>
   (to_checksum_address h CONDITIONAL_TOKENS_FRAMEWORK_ADDRESS = Inr ctf \<and>
    fromhex (drop 2 cid) = Inr c \<and>
    outside h s (PayoutDenominator ctf c) = (Inl e, s') \<longrightarrow>
      is_condition_resolved h cid s =
        (Inr False, [Ev (PayoutDenominator ctf c) (Inl e)], s'))"
proof (intro conjI impI)
  show "redeem_guarded (result_of (redeem_condition h cid neg) s)
     (trace_of (redeem_condition h cid neg) s)"
    by (rule sat_result_trace [OF redeem_condition_guarded])
  show "result_of (is_condition_resolved h cid) s =
     Inr (resolution_result (trace_of (is_condition_resolved h cid) s))"
    using sat_result_trace [OF is_condition_resolved_result, of h cid s] by simp
  show "resolution_result [] = False"
    by (simp add: resolution_result_def)
  show "resolution_result [Ev (PayoutDenominator ctf c) (Inl e)] = False"
    by (simp add: resolution_result_def resolved_reply_def)
  show "is_condition_resolved h cid s =
        (Inr False, [Ev (PayoutDenominator ctf c) (Inl e)], s')"
    if "to_checksum_address h CONDITIONAL_TOKENS_FRAMEWORK_ADDRESS = Inr ctf \<and>
      fromhex (drop 2 cid) = Inr c \<and>
      outside h s (PayoutDenominator ctf c) = (Inl e, s')"
    using that by (simp add: is_condition_resolved_raises)
qed

lemma demo_down:
  "outside (demo_host demo_key demo_proxy) (demo_chain_down yes no)
     (PayoutDenominator CONDITIONAL_TOKENS_FRAMEWORK_ADDRESS [192]) =
     (Inl (RpcError ''connection refused''), demo_chain_down yes no)"
  by (simp add: demo_host_def demo_outside_def demo_chain_down_def demo_chain_def)

text \<open>
  Scenario C on the concrete chain, balances (60,000,000, 0) and an unresolved condition:
  success, nothing encoded or sent, the chain unchanged. The same with the node failing on
  the payout denominator of a condition that is resolved.
\<close>

lemma scenario_C:
  "result_of (redeem_condition (demo_host demo_key demo_proxy) demo_cid False)
      (demo_chain 60000000 0 0) = Inr True \<and>
   only (\<lambda>c. \<not> is_write c \<and> \<not> is_encode c \<and> \<not> is_settle c)
     (trace_of (redeem_condition (demo_host demo_key demo_proxy) demo_cid False)
        (demo_chain 60000000 0 0)) \<and>
   snd (snd (redeem_condition (demo_host demo_key demo_proxy) demo_cid False
        (demo_chain 60000000 0 0))) = demo_chain 60000000 0 0"
  by code_simp

lemma scenario_down:
  "result_of (redeem_condition (demo_host demo_key demo_proxy) demo_cid False)
      (demo_chain_down 60000000 0) = Inr True \<and>
   only (\<lambda>c. \<not> is_write c \<and> \<not> is_encode c \<and> \<not> is_settle c)
     (trace_of (redeem_condition (demo_host demo_key demo_proxy) demo_cid False)
        (demo_chain_down 60000000 0))"
  by code_simp

theorem unresolved_market_never_redeemed_witness:
  "is_condition_resolved (demo_host demo_key demo_proxy) demo_cid (demo_chain_down 60000000 0) =
     (Inr False,
      [Ev (PayoutDenominator CONDITIONAL_TOKENS_FRAMEWORK_ADDRESS [192])
          (Inl (RpcError ''connection refused''))],
      demo_chain_down 60000000 0) \<and>
   result_of (redeem_condition (demo_host demo_key demo_proxy) demo_cid False)
      (demo_chain_down 60000000 0) = Inr True \<and>
   only (\<lambda>c. \<not> is_write c \<and> \<not> is_encode c \<and> \<not> is_settle c)
     (trace_of (redeem_condition (demo_host demo_key demo_proxy) demo_cid False)
        (demo_chain_down 60000000 0))"
  using unresolved_market_never_redeemed [where h = "demo_host demo_key demo_proxy"
      and cid = demo_cid and s = "demo_chain_down 60000000 0" and s' = "demo_chain_down 60000000 0"
      and ctf = CONDITIONAL_TOKENS_FRAMEWORK_ADDRESS and c = "[192]"
      and e = "RpcError ''connection refused''" and neg = False]
    demo_lib demo_down [of 60000000 0] scenario_down
  by simp

subsection \<open>Missing configuration\<close>

lemma bind_fail: "m s = (Inl e, evs, s1) \<Longrightarrow> bind m f s = (Inl e, evs, s1)"
  by (simp add: bind_def)

lemma bind_quiet: "m s = (Inr x, [], s) \<Longrightarrow> bind m f s = f x s"
  by (cases "f x s") (simp add: bind_def)

lemma try_ret_fail: "m s = (Inl e, evs, s1) \<Longrightarrow> try_except m (\<lambda>e. ret v) s = (Inr v, evs, s1)"
  by (simp add: try_except_def ret_def)

lemma get_web3_and_account_missing:
  assumes "env_PRIVATE_KEY h = None \<or> env_POLYMARKET_PROXY_ADDRESS h = None"
  shows "\<exists>e. get_web3_and_account h s = (Inl e, [], s)"
  using assms
  by (cases "on_env (from_key h) (env_PRIVATE_KEY h)")
     (auto simp: get_web3_and_account_def bind_def lift_def ret_def on_env_def)

lemma redeem_condition_missing:
  assumes "env_PRIVATE_KEY h = None \<or> env_POLYMARKET_PROXY_ADDRESS h = None"
  shows "redeem_condition h cid neg s = (Inr False, [], s)"
proof -
  from get_web3_and_account_missing [OF assms]
  obtain e where w: "get_web3_and_account h s = (Inl e, [], s)" by blast
  show ?thesis
    unfolding redeem_condition_def
    by (rule try_ret_fail, rule bind_fail, rule w)
qed

lemma merge_condition_missing:
  assumes "env_PRIVATE_KEY h = None \<or> env_POLYMARKET_PROXY_ADDRESS h = None"
  shows "merge_condition h cid neg s = (Inr False, [], s)"
proof -
  from get_web3_and_account_missing [OF assms]
  obtain e where w: "get_web3_and_account h s = (Inl e, [], s)" by blast
  show ?thesis
    unfolding merge_condition_def
    by (rule try_ret_fail, rule bind_fail, rule w)
qed

lemma redeem_loop_missing:
  assumes "env_PRIVATE_KEY h = None \<or> env_POLYMARKET_PROXY_ADDRESS h = None"
  shows "redeem_loop h cids n s = (Inr n, [], s)"
proof (induction cids arbitrary: n)
  case Nil
  show ?case by (simp add: ret_def)
next
  case (Cons c cs)
  have "redeem_loop h (c # cs) n s = redeem_loop h cs n s"
    using bind_quiet [where m = "redeem_condition h c False" and s = s and x = False
        and f = "\<lambda>ok. redeem_loop h cs (if ok then n + 1 else n)",
        OF redeem_condition_missing [OF assms]]
    by simp
  then show ?case using Cons.IH by simp
qed

lemma condition_ids_of_Nil: "condition_ids_of [] = []"
  by (simp add: condition_ids_of_def)

text \<open>
  Claim C7, as amended. When the private key or the wallet address is absent from the
  environment, \<open>_get_web3_and_account\<close> raises inside the \<open>try\<close> of
  \<open>redeem_condition\<close> and of \<open>merge_condition\<close>: each of them returns the ordinary
  failure value \<open>False\<close>, having made no call at all and left the world unchanged. The
  batch drivers do not stop: after listing the positions they go through every condition,
  each step failing in that way, and return normally the pair (0, number of conditions),
  their trace being that of the listing alone.
\<close>

theorem missing_configuration_fails_each_condition:
  "(env_PRIVATE_KEY h = None \<or> env_POLYMARKET_PROXY_ADDRESS h = None \<longrightarrow>
      redeem_condition h cid neg s = (Inr False, [], s) \<and>
      merge_condition h cid neg s = (Inr False, [], s) \<and>
      redeem_loop h cids n s = (Inr n, [], s)) \<and>
   ((env_PRIVATE_KEY h = None \<or> env_POLYMARKET_PROXY_ADDRESS h = None) \<and>
    get_redeemable_positions h (Some market_slug) s = (Inr ps, evs, s') \<and>
    condition_ids_of ps \<noteq> [] \<longrightarrow>
      redeem_market_positions h market_slug s =
        (Inr (0, int (length (condition_ids_of ps))), evs, s')) \<and>
   ((env_PRIVATE_KEY h = None \<or> env_POLYMARKET_PROXY_ADDRESS h = None) \<and>
    get_redeemable_positions h None s = (Inr ps, evs, s') \<and>
    condition_ids_of ps \<noteq> [] \<longrightarrow>
      redeem_all_positions h s =
        (Inr (0, int (length (condition_ids_of ps))), evs, s'))"
proof (intro conjI impI)
  assume a: "env_PRIVATE_KEY h = None \<or> env_POLYMARKET_PROXY_ADDRESS h = None"
  show "redeem_condition h cid neg s = (Inr False, [], s)"
    using a by (rule redeem_condition_missing)
  show "merge_condition h cid neg s = (Inr False, [], s)"
    using a by (rule merge_condition_missing)
  show "redeem_loop h cids n s = (Inr n, [], s)"
    using a by (rule redeem_loop_missing)
next
  assume a: "(env_PRIVATE_KEY h = None \<or> env_POLYMARKET_PROXY_ADDRESS h = None) \<and>
    get_redeemable_positions h (Some market_slug) s = (Inr ps, evs, s') \<and>
    condition_ids_of ps \<noteq> []"
  then have ne: "ps \<noteq> []" using condition_ids_of_Nil by auto
  from a have l: "redeem_loop h (set_iter h (condition_ids_of ps)) 0 s' = (Inr 0, [], s')"
    by (intro redeem_loop_missing) simp
  show "redeem_market_positions h market_slug s =
        (Inr (0, int (length (condition_ids_of ps))), evs, s')"
    using a ne l by (simp add: redeem_market_positions_def bind_def ret_def Let_def)
next
  assume a: "(env_PRIVATE_KEY h = None \<or> env_POLYMARKET_PROXY_ADDRESS h = None) \<and>
    get_redeemable_positions h None s = (Inr ps, evs, s') \<and>
    condition_ids_of ps \<noteq> []"
  then have ne: "ps \<noteq> []" using condition_ids_of_Nil by auto
  from a have l: "redeem_loop h (set_iter h (condition_ids_of ps)) 0 s' = (Inr 0, [], s')"
    by (intro redeem_loop_missing) simp
  show "redeem_all_positions h s =
        (Inr (0, int (length (condition_ids_of ps))), evs, s')"
    using a ne l by (simp add: redeem_all_positions_def bind_def ret_def Let_def)
qed

text \<open>
  The private key absent, two conditions listed: the step of each condition returns
  \<open>False\<close> rather than raising, and both batch drivers run to their end and return
  (0, 2). The failure is turned into the per-condition failure value and the batch
  continues.
\<close>

theorem missing_private_key_counterexample:
  "env_PRIVATE_KEY (demo_host None demo_proxy) = None \<and>
   redeem_condition (demo_host None demo_proxy) ''0xc0'' False (demo_chain_listed 100 40 1) =
     (Inr False, [], demo_chain_listed 100 40 1) \<and>
   redeem_condition (demo_host None demo_proxy) ''0xc1'' False (demo_chain_listed 100 40 1) =
     (Inr False, [], demo_chain_listed 100 40 1) \<and>
   result_of (redeem_market_positions (demo_host None demo_proxy) ''btc-updown-15m-1700000000'')
     (demo_chain_listed 100 40 1) = Inr (0, 2) \<and>
   result_of (redeem_all_positions (demo_host None demo_proxy))
     (demo_chain_listed 100 40 1) = Inr (0, 2)"
  by code_simp

lemma demo_listing:
  "get_redeemable_positions (demo_host None demo_proxy) (Some ''btc-updown-15m-1700000000'')
     (demo_chain_listed 100 40 1) =
     (Inr [pos1, pos2],
      trace_of (get_redeemable_positions (demo_host None demo_proxy)
         (Some ''btc-updown-15m-1700000000'')) (demo_chain_listed 100 40 1),
      demo_chain_listed 100 40 1)"
  by code_simp

lemma demo_ids: "condition_ids_of [pos1, pos2] = [''0xc0'', ''0xc1'']"
  by code_simp

theorem missing_configuration_fails_each_condition_witness:
  "redeem_market_positions (demo_host None demo_proxy) ''btc-updown-15m-1700000000''
     (demo_chain_listed 100 40 1) =
     (Inr (0, 2),
      trace_of (get_redeemable_positions (demo_host None demo_proxy)
         (Some ''btc-updown-15m-1700000000'')) (demo_chain_listed 100 40 1),
      demo_chain_listed 100 40 1) \<and>
   merge_condition (demo_host None demo_proxy) demo_cid False (demo_chain 100 40 1) =
     (Inr False, [], demo_chain 100 40 1)"
proof -
  have k: "env_PRIVATE_KEY (demo_host None demo_proxy) = None"
    by (simp add: demo_host_def)
  show ?thesis
    using missing_configuration_fails_each_condition [where h = "demo_host None demo_proxy"
        and market_slug = "''btc-updown-15m-1700000000''" and s = "demo_chain_listed 100 40 1"
        and s' = "demo_chain_listed 100 40 1" and ps = "[pos1, pos2]"
        and evs = "trace_of (get_redeemable_positions (demo_host None demo_proxy)
           (Some ''btc-updown-15m-1700000000'')) (demo_chain_listed 100 40 1)"
        and cid = demo_cid and neg = False]
      missing_configuration_fails_each_condition [where h = "demo_host None demo_proxy"
        and s = "demo_chain 100 40 1" and cid = demo_cid and neg = False]
      k demo_listing demo_ids
    by simp
qed

subsection \<open>The signature in the executor\<close>

text \<open>
  The signature that \<open>_execute_safe_transaction\<close> passes to \<open>execTransaction\<close> is the
  one assembled by lines 150-153 from the signature of the hash it has just obtained.
\<close>

lemma execute_signed_trace:
  "sat (execute_safe_transaction h acct safe to_address data)
     (\<lambda>r evs. signed_trace h acct None evs)"
  unfolding execute_safe_transaction_def
  apply (intro sat_intros)
  apply simp_all
  done

lemma signature_demo:
  "signed_trace (demo_host demo_key demo_proxy) demo_account None
     (trace_of (execute_safe_transaction (demo_host demo_key demo_proxy) demo_account demo_safe
        CONDITIONAL_TOKENS_FRAMEWORK_ADDRESS [2]) (demo_chain 60 0 1)) \<and>
   length (trace_of (execute_safe_transaction (demo_host demo_key demo_proxy) demo_account
        demo_safe CONDITIONAL_TOKENS_FRAMEWORK_ADDRESS [2]) (demo_chain 60 0 1)) = 7"
  by code_simp

end
